theory Spec2Isabelle
  imports Complex_Main
begin

section \<open>Receipt text extraction: the heuristic engine and the repair pass\<close>

text \<open>
  A shallow embedding of \<^verbatim>\<open>src/lib/imagePreprocessing.ts\<close> (the part that is the module
  \<^verbatim>\<open>heuristicExtraction\<close>: \<^verbatim>\<open>extractAmount\<close>, \<^verbatim>\<open>extractDate\<close>, \<^verbatim>\<open>extractProvider\<close>,
  \<^verbatim>\<open>extractDescription\<close>, \<^verbatim>\<open>heuristicExtraction\<close>, \<^verbatim>\<open>normalizeAmount\<close>) and of
  \<^verbatim>\<open>validateAndFixFields\<close> in \<^verbatim>\<open>src/app/api/upload-receipt/route.ts\<close>.

  Conventions of the embedding.
  \<^item> A JavaScript string is a \<^typ>\<open>string\<close>: one \<^typ>\<open>char\<close> per UTF-16 code unit, so the
    texts covered are those whose code units lie in \<open>0..255\<close> (ASCII and Latin-1).
  \<^item> A JavaScript number is a \<^typ>\<open>rat\<close>: decimal literals and the sums and comparisons of
    the code are exact; IEEE rounding is not modelled. \<open>NaN\<close>, \<open>null\<close> and \<open>undefined\<close>
    are \<^const>\<open>None\<close>.
  \<^item> A thrown exception is a value: functions that can throw return \<open>error + 'a\<close>.
  \<^item> Regular expressions are syntax trees, written next to the source literal they
    transcribe, and run by a backtracking matcher that follows the ECMAScript
    semantics (priority order of alternatives, greedy quantifiers, the empty check).
\<close>

subsection \<open>Characters and the string primitives of the runtime\<close>

definition cu :: "char \<Rightarrow> nat" where
  "cu c = of_char c"

definition isDigit :: "char \<Rightarrow> bool" where
  "isDigit c = (48 \<le> cu c \<and> cu c \<le> 57)"

definition isAsciiUpper :: "char \<Rightarrow> bool" where
  "isAsciiUpper c = (65 \<le> cu c \<and> cu c \<le> 90)"

definition isAsciiLower :: "char \<Rightarrow> bool" where
  "isAsciiLower c = (97 \<le> cu c \<and> cu c \<le> 122)"

text \<open>\<^verbatim>\<open>\w\<close> of a pattern without the \<^verbatim>\<open>u\<close> flag: \<^verbatim>\<open>[A-Za-z0-9_]\<close>.\<close>

definition isWordChar :: "char \<Rightarrow> bool" where
  "isWordChar c = (isAsciiUpper c \<or> isAsciiLower c \<or> isDigit c \<or> cu c = 95)"

text \<open>
  White space and line terminators (\<^verbatim>\<open>\s\<close>, \<^verbatim>\<open>trim\<close>) below \<open>U+0100\<close>: TAB, LF, VT, FF,
  CR, SPACE and NBSP.
\<close>

definition isSpace :: "char \<Rightarrow> bool" where
  "isSpace c = ((9 \<le> cu c \<and> cu c \<le> 13) \<or> cu c = 32 \<or> cu c = 160)"

text \<open>Line terminators (what \<^verbatim>\<open>.\<close> does not match): LF and CR.\<close>

definition isLineTerminator :: "char \<Rightarrow> bool" where
  "isLineTerminator c = (cu c = 10 \<or> cu c = 13)"

text \<open>
  Letters with a lower-case partner below \<open>U+0100\<close>: \<open>A..Z\<close> and \<open>U+00C0..U+00DE\<close> without
  the multiplication sign \<open>U+00D7\<close>. The partner is \<open>0x20\<close> higher, which is bit 5.
\<close>

definition hasLower :: "char \<Rightarrow> bool" where
  "hasLower c = (isAsciiUpper c \<or> (192 \<le> cu c \<and> cu c \<le> 222 \<and> cu c \<noteq> 215))"

definition hasUpper :: "char \<Rightarrow> bool" where
  "hasUpper c = (isAsciiLower c \<or> (224 \<le> cu c \<and> cu c \<le> 254 \<and> cu c \<noteq> 247))"

fun setBit5 :: "bool \<Rightarrow> char \<Rightarrow> char" where
  "setBit5 v (Char b0 b1 b2 b3 b4 b5 b6 b7) = Char b0 b1 b2 b3 b4 v b6 b7"

definition toLowerChar :: "char \<Rightarrow> char" where
  "toLowerChar c = (if hasLower c then setBit5 True c else c)"

definition toLowerCase :: "string \<Rightarrow> string" where
  "toLowerCase s = map toLowerChar s"

text \<open>
  \<^verbatim>\<open>toUpperCase\<close>. Sharp s (\<open>U+00DF\<close>) becomes \<^verbatim>\<open>SS\<close>. The upper-case forms of the micro
  sign \<open>U+00B5\<close> and of \<open>U+00FF\<close> lie above \<open>U+00FF\<close>; the code only searches the result
  for ASCII words, so they are kept as they are, which gives the same search results.
\<close>

definition toUpperChar :: "char \<Rightarrow> string" where
  "toUpperChar c = (if hasUpper c then [setBit5 False c]
                    else if cu c = 223 then ''SS'' else [c])"

definition toUpperCase :: "string \<Rightarrow> string" where
  "toUpperCase s = concat (map toUpperChar s)"

text \<open>
  \<^verbatim>\<open>Canonicalize\<close> of a pattern with the \<^verbatim>\<open>i\<close> flag and without \<^verbatim>\<open>u\<close>: the upper-case
  form when it is one code unit. Two code units below \<open>U+0100\<close> have the same canonical
  form exactly when they are equal or an upper/lower pair.
\<close>

definition canonicalize :: "bool \<Rightarrow> char \<Rightarrow> char" where
  "canonicalize ic c = (if ic \<and> hasUpper c then setBit5 False c else c)"

fun isPrefix :: "'a list \<Rightarrow> 'a list \<Rightarrow> bool" where
  "isPrefix [] ys = True"
| "isPrefix (x # xs) [] = False"
| "isPrefix (x # xs) (y # ys) = (x = y \<and> isPrefix xs ys)"

text \<open>\<^verbatim>\<open>hay.includes(needle)\<close>.\<close>

fun includesStr :: "'a list \<Rightarrow> 'a list \<Rightarrow> bool" where
  "includesStr [] needle = (needle = [])"
| "includesStr (h # hs) needle = (isPrefix needle (h # hs) \<or> includesStr hs needle)"

definition trim :: "string \<Rightarrow> string" where
  "trim s = rev (dropWhile isSpace (rev (dropWhile isSpace s)))"

text \<open>\<^verbatim>\<open>s.substring(a, b)\<close> for \<open>0 \<le> a \<le> b\<close>.\<close>

definition substring :: "string \<Rightarrow> nat \<Rightarrow> nat \<Rightarrow> string" where
  "substring s a b = take (b - a) (drop a s)"

text \<open>\<^verbatim>\<open>s.padStart(n, '0')\<close>.\<close>

definition padStart0 :: "nat \<Rightarrow> string \<Rightarrow> string" where
  "padStart0 n s = replicate (n - length s) CHR ''0'' @ s"

text \<open>
  \<^verbatim>\<open>s.replace(t, u)\<close> with a string \<open>t\<close> and a replacement \<open>u\<close> without \<^verbatim>\<open>$\<close>: the first
  occurrence of \<open>t\<close> is replaced.
\<close>

fun replaceFirst :: "string \<Rightarrow> string \<Rightarrow> string \<Rightarrow> string" where
  "replaceFirst [] t u = (if t = [] then u else [])"
| "replaceFirst (c # cs) t u =
     (if isPrefix t (c # cs) then u @ drop (length t) (c # cs) else c # replaceFirst cs t u)"

definition removeFirst :: "string \<Rightarrow> string \<Rightarrow> string" where
  "removeFirst s t = replaceFirst s t []"

text \<open>\<^verbatim>\<open>s.split(/[.,]/)\<close> and the like: split at every character that satisfies \<open>p\<close>.\<close>

fun splitOn :: "(char \<Rightarrow> bool) \<Rightarrow> string \<Rightarrow> string list" where
  "splitOn p [] = [[]]"
| "splitOn p (c # cs) =
     (if p c then [] # splitOn p cs
      else (case splitOn p cs of [] \<Rightarrow> [[c]] | w # ws \<Rightarrow> (c # w) # ws))"

text \<open>JavaScript truthiness of a string or number that may be \<^verbatim>\<open>null\<close>.\<close>

definition truthyStr :: "string option \<Rightarrow> bool" where
  "truthyStr v = (case v of None \<Rightarrow> False | Some s \<Rightarrow> s \<noteq> [])"

definition truthyNum :: "rat option \<Rightarrow> bool" where
  "truthyNum v = (case v of None \<Rightarrow> False | Some x \<Rightarrow> x \<noteq> 0)"

subsection \<open>Numbers from strings\<close>

definition digitVal :: "char \<Rightarrow> nat" where
  "digitVal c = cu c - 48"

text \<open>The value of a string of decimal digits, most significant first.\<close>

definition digitsVal :: "string \<Rightarrow> nat" where
  "digitsVal ds = foldl (\<lambda>acc c. 10 * acc + digitVal c) 0 ds"

text \<open>
  \<^verbatim>\<open>parseInt(s, 10)\<close> and \<^verbatim>\<open>parseInt(s)\<close>: leading white space, an optional sign, then the
  longest run of decimal digits; \<open>NaN\<close> when there is none. (Without a radix a prefix
  \<^verbatim>\<open>0x\<close> selects base 16; the values differ only on such strings, where the decimal
  reading gives 0 and the hexadecimal one is whatever follows.)
\<close>

definition isHexDigit :: "char \<Rightarrow> bool" where
  "isHexDigit c = (isDigit c \<or> (65 \<le> cu c \<and> cu c \<le> 70) \<or> (97 \<le> cu c \<and> cu c \<le> 102))"

definition hexVal :: "char \<Rightarrow> nat" where
  "hexVal c = (if isDigit c then cu c - 48 else if cu c \<le> 70 then cu c - 55 else cu c - 87)"

definition parseUnsigned :: "bool \<Rightarrow> string \<Rightarrow> int option" where
  "parseUnsigned radixGiven s =
     (if \<not> radixGiven \<and> (isPrefix ''0x'' s \<or> isPrefix ''0X'' s)
      then (let hs = takeWhile isHexDigit (drop 2 s)
            in if hs = [] then None
               else Some (int (foldl (\<lambda>acc c. 16 * acc + hexVal c) 0 hs)))
      else (let ds = takeWhile isDigit s
            in if ds = [] then None else Some (int (digitsVal ds))))"

definition parseIntRadix :: "bool \<Rightarrow> string \<Rightarrow> int option" where
  "parseIntRadix radixGiven s =
     (case dropWhile isSpace s of
        [] \<Rightarrow> None
      | c # cs \<Rightarrow>
          if c = CHR ''-'' then map_option uminus (parseUnsigned radixGiven cs)
          else if c = CHR ''+'' then parseUnsigned radixGiven cs
          else parseUnsigned radixGiven (c # cs))"

definition parseInt :: "string option \<Rightarrow> int option" where
  "parseInt v = (case v of None \<Rightarrow> None | Some s \<Rightarrow> parseIntRadix False s)"

definition parseInt10 :: "string \<Rightarrow> int option" where
  "parseInt10 s = parseIntRadix True s"

text \<open>
  \<^verbatim>\<open>parseFloat(s)\<close>: leading white space, an optional sign, then the longest prefix
  \<open>digits [. digits]\<close> or \<open>. digits\<close>; \<open>NaN\<close> when there is none. Every call of the code
  passes digits and at most one dot, so exponents and \<^verbatim>\<open>Infinity\<close> are not read.
\<close>

definition parseDecimal :: "string \<Rightarrow> rat option" where
  "parseDecimal s =
     (let ip = takeWhile isDigit s;
          r = dropWhile isDigit s;
          fp = (case r of [] \<Rightarrow> [] | c # cs \<Rightarrow> if c = CHR ''.'' then takeWhile isDigit cs else [])
      in if ip = [] \<and> fp = [] then None
         else Some (of_nat (digitsVal ip) + of_nat (digitsVal fp) / 10 ^ length fp))"

definition parseFloat :: "string \<Rightarrow> rat option" where
  "parseFloat s =
     (case dropWhile isSpace s of
        [] \<Rightarrow> None
      | c # cs \<Rightarrow>
          if c = CHR ''-'' then map_option uminus (parseDecimal cs)
          else if c = CHR ''+'' then parseDecimal cs
          else parseDecimal (c # cs))"

text \<open>\<^verbatim>\<open>n.toString()\<close> for a non-negative integer.\<close>

definition digitChar :: "nat \<Rightarrow> char" where
  "digitChar d = ''0123456789'' ! (d mod 10)"

fun showNat :: "nat \<Rightarrow> string" where
  "showNat n = (if n < 10 then [digitChar n]
                else showNat (n div 10) @ [digitChar (n mod 10)])"

declare showNat.simps [simp del]

subsection \<open>Regular expressions\<close>

text \<open>
  The members of a character class: a character, a character given by its code unit
  (the source has class members above \<open>U+00FF\<close>, which match no character of a text),
  a range, \<^verbatim>\<open>\d\<close> and \<^verbatim>\<open>\s\<close>.
\<close>

datatype citem = CChar char | CUnit nat | CRange char char | CDigit | CSpace

datatype regex =
    Chr char
  | AnyChar
  | Cls "citem list"
  | NCls "citem list"
  | Eps
  | Seq regex regex
  | Alt regex regex
  | Rep nat "nat option" regex
  | Grp nat regex
  | WordB
  | Bol
  | Eol

text \<open>
  \<open>Rep lo hi r\<close> is the greedy quantifier \<^verbatim>\<open>r{lo,hi}\<close> (\<open>hi = None\<close>: no upper bound);
  \<open>Grp n r\<close> is the \<open>n\<close>-th capturing group; \<open>WordB\<close>, \<open>Bol\<close>, \<open>Eol\<close> are \<^verbatim>\<open>\b\<close>, \<^verbatim>\<open>^\<close>, \<^verbatim>\<open>$\<close>
  (no \<^verbatim>\<open>m\<close> flag).
\<close>

definition Star :: "regex \<Rightarrow> regex" where "Star r = Rep 0 None r"
definition Plus :: "regex \<Rightarrow> regex" where "Plus r = Rep 1 None r"
definition Opt :: "regex \<Rightarrow> regex" where "Opt r = Rep 0 (Some 1) r"
definition Times :: "nat \<Rightarrow> regex \<Rightarrow> regex" where "Times n r = Rep n (Some n) r"
definition Between :: "nat \<Rightarrow> nat \<Rightarrow> regex \<Rightarrow> regex" where "Between lo hi r = Rep lo (Some hi) r"

fun Seqs :: "regex list \<Rightarrow> regex" where
  "Seqs [] = Eps"
| "Seqs [r] = r"
| "Seqs (r # rs) = Seq r (Seqs rs)"

fun Alts :: "regex list \<Rightarrow> regex" where
  "Alts [] = Eps"
| "Alts [r] = r"
| "Alts (r # rs) = Alt r (Alts rs)"

definition Lit :: "string \<Rightarrow> regex" where
  "Lit s = Seqs (map Chr s)"

text \<open>The character set of a class member, and membership under the \<^verbatim>\<open>i\<close> flag.\<close>

fun inItem :: "citem \<Rightarrow> char \<Rightarrow> bool" where
  "inItem (CChar a) c = (a = c)"
| "inItem (CUnit u) c = (cu c = u)"
| "inItem (CRange a b) c = (cu a \<le> cu c \<and> cu c \<le> cu b)"
| "inItem CDigit c = isDigit c"
| "inItem CSpace c = isSpace c"

text \<open>
  \<^verbatim>\<open>CharacterSetMatcher\<close>: some member of the set has the canonical form of the input
  character. Below \<open>U+0100\<close> the characters with the canonical form of \<open>c\<close> are \<open>c\<close> and
  its upper/lower partner.
\<close>

definition inClass :: "bool \<Rightarrow> citem list \<Rightarrow> char \<Rightarrow> bool" where
  "inClass ic items c =
     (list_ex (\<lambda>i. inItem i c) items
      \<or> (ic \<and> hasUpper c \<and> list_ex (\<lambda>i. inItem i (setBit5 False c)) items)
      \<or> (ic \<and> hasLower c \<and> list_ex (\<lambda>i. inItem i (setBit5 True c)) items))"

text \<open>
  The state of the matcher: the index of the next character (\<^verbatim>\<open>endIndex\<close>), the number
  of characters from there to the end of the text, the character before the index
  (none at index 0), the rest of the text, and the captures, latest first.
\<close>

record mstate =
  pos :: nat
  left :: nat
  prev :: "char option"
  rest :: string
  caps :: "(nat \<times> string) list"

definition startState :: "string \<Rightarrow> mstate" where
  "startState s = \<lparr>pos = 0, left = length s, prev = None, rest = s, caps = []\<rparr>"

definition advance :: "mstate \<Rightarrow> mstate" where
  "advance st = (case rest st of
                   [] \<Rightarrow> st
                 | c # cs \<Rightarrow> st\<lparr>pos := Suc (pos st), left := left st - 1,
                                prev := Some c, rest := cs\<rparr>)"

text \<open>One character that satisfies \<open>p\<close>.\<close>

definition step :: "(char \<Rightarrow> bool) \<Rightarrow> mstate \<Rightarrow> mstate list" where
  "step p st = (case rest st of
                  [] \<Rightarrow> []
                | c # cs \<Rightarrow> if p c then [advance st] else [])"

definition atWordBoundary :: "mstate \<Rightarrow> bool" where
  "atWordBoundary st =
     ((case prev st of None \<Rightarrow> False | Some c \<Rightarrow> isWordChar c)
      \<noteq> (case rest st of [] \<Rightarrow> False | c # cs \<Rightarrow> isWordChar c))"

text \<open>The numbers of the capturing groups inside a pattern.\<close>

fun groups :: "regex \<Rightarrow> nat list" where
  "groups (Seq a b) = groups a @ groups b"
| "groups (Alt a b) = groups a @ groups b"
| "groups (Rep lo hi r) = groups r"
| "groups (Grp n r) = n # groups r"
| "groups r = []"

definition clearCaps :: "nat list \<Rightarrow> mstate \<Rightarrow> mstate" where
  "clearCaps ns st = (if ns = [] then st
                      else st\<lparr>caps := filter (\<lambda>(n, s). n \<notin> set ns) (caps st)\<rparr>)"

definition setCap :: "nat \<Rightarrow> mstate \<Rightarrow> mstate \<Rightarrow> mstate" where
  "setCap n st0 st1 = st1\<lparr>caps := (n, take (pos st1 - pos st0) (rest st0)) # caps st1\<rparr>"

fun rsize :: "regex \<Rightarrow> nat" where
  "rsize (Seq a b) = Suc (rsize a + rsize b)"
| "rsize (Alt a b) = Suc (rsize a + rsize b)"
| "rsize (Rep lo hi r) = Suc (rsize r)"
| "rsize (Grp n r) = Suc (rsize r)"
| "rsize r = 0"

definition decr :: "nat option \<Rightarrow> nat option" where
  "decr hi = map_option (\<lambda>h. h - 1) hi"

text \<open>
  The matcher returns the states in which a match of the pattern can end, in the
  order in which backtracking visits them; the head is the match that a pattern
  ending here takes. An alternative tries its left side first. A quantifier is
  greedy: \<^verbatim>\<open>RepeatMatcher\<close> clears the captures of the groups inside the atom before
  each iteration, rejects an iteration that matches the empty string once the
  minimum is reached (\<open>lo = 0\<close> and the index has not moved, that is, no fewer
  characters are left), and falls back to zero further iterations only when the
  minimum is reached.
\<close>

function (sequential) matcher :: "bool \<Rightarrow> regex \<Rightarrow> mstate \<Rightarrow> mstate list" where
  "matcher ic (Chr a) st = step (\<lambda>c. canonicalize ic c = canonicalize ic a) st"
| "matcher ic AnyChar st = step (\<lambda>c. \<not> isLineTerminator c) st"
| "matcher ic (Cls items) st = step (\<lambda>c. inClass ic items c) st"
| "matcher ic (NCls items) st = step (\<lambda>c. \<not> inClass ic items c) st"
| "matcher ic Eps st = [st]"
| "matcher ic (Seq a b) st = concat (map (matcher ic b) (matcher ic a st))"
| "matcher ic (Alt a b) st = matcher ic a st @ matcher ic b st"
| "matcher ic (Grp n r) st = map (setCap n st) (matcher ic r st)"
| "matcher ic WordB st = (if atWordBoundary st then [st] else [])"
| "matcher ic Bol st = (if pos st = 0 then [st] else [])"
| "matcher ic Eol st = (if rest st = [] then [st] else [])"
| "matcher ic (Rep lo hi r) st =
     (if hi = Some 0 then [st]
      else concat (map (\<lambda>st'. if lo = 0 \<and> left st \<le> left st' then []
                               else matcher ic (Rep (lo - 1) (decr hi) r) st')
                       (matcher ic r (clearCaps (groups r) st)))
           @ (if lo = 0 then [st] else []))"
  by pat_completeness auto
termination
  by (relation "inv_image (less_than <*lex*> less_than <*lex*> less_than)
        (\<lambda>(ic, r, st). (rsize r, (case r of Rep lo hi r' \<Rightarrow> lo | _ \<Rightarrow> 0), left st))")
     auto

declare matcher.simps [simp del]

text \<open>
  A match as \<^verbatim>\<open>exec\<close> returns it: \<^verbatim>\<open>match.index\<close>, \<^verbatim>\<open>match[0]\<close> and the captures.
\<close>

record rmatch =
  index :: nat
  whole :: string
  captures :: "(nat \<times> string) list"

text \<open>\<^verbatim>\<open>match[n]\<close> for \<open>n \<ge> 1\<close>: \<^verbatim>\<open>undefined\<close> when the group took no part in the match.\<close>

definition grp :: "rmatch \<Rightarrow> nat \<Rightarrow> string option" where
  "grp m n = map_of (captures m) n"

definition mkMatch :: "mstate \<Rightarrow> mstate \<Rightarrow> rmatch" where
  "mkMatch st0 st1 = \<lparr>index = pos st0, whole = take (pos st1 - pos st0) (rest st0),
                       captures = caps st1\<rparr>"

text \<open>
  \<^verbatim>\<open>exec\<close> of a pattern without the \<^verbatim>\<open>y\<close> flag, from the state at \<^verbatim>\<open>lastIndex\<close>: the
  first index from there at which the pattern matches, with the state after the match.
\<close>

fun execFrom :: "bool \<Rightarrow> regex \<Rightarrow> nat \<Rightarrow> mstate \<Rightarrow> (rmatch \<times> mstate) option" where
  "execFrom ic r 0 st =
     (case matcher ic r (st\<lparr>caps := []\<rparr>) of
        st1 # _ \<Rightarrow> Some (mkMatch st st1, st1)
      | [] \<Rightarrow> None)"
| "execFrom ic r (Suc n) st =
     (case matcher ic r (st\<lparr>caps := []\<rparr>) of
        st1 # _ \<Rightarrow> Some (mkMatch st st1, st1)
      | [] \<Rightarrow> execFrom ic r n (advance st))"

text \<open>
  Every match of a pattern with the \<^verbatim>\<open>g\<close> flag (\<^verbatim>\<open>matchAll\<close>, \<^verbatim>\<open>match\<close>, \<^verbatim>\<open>replace\<close>): the
  next search starts where the last match ended, one character further after an
  empty match, and stops when the index passes the end of the text.
\<close>

function matchesFrom :: "bool \<Rightarrow> regex \<Rightarrow> mstate \<Rightarrow> rmatch list" where
  "matchesFrom ic r st =
     (case execFrom ic r (left st) st of
        None \<Rightarrow> []
      | Some (m, st1) \<Rightarrow>
          m # (if whole m = []
               then (if left (advance st1) < left st then matchesFrom ic r (advance st1)
                     else [])
               else (if left st1 < left st then matchesFrom ic r st1 else [])))"
  by pat_completeness auto
termination
  by (relation "measure (\<lambda>(ic, r, st). left st)") auto

declare matchesFrom.simps [simp del]

definition matchAll :: "bool \<Rightarrow> regex \<Rightarrow> string \<Rightarrow> rmatch list" where
  "matchAll ic r s = matchesFrom ic r (startState s)"

text \<open>\<^verbatim>\<open>s.match(r)\<close> and \<^verbatim>\<open>r.test(s)\<close> for a pattern without the \<^verbatim>\<open>g\<close> flag.\<close>

definition matchFirst :: "bool \<Rightarrow> regex \<Rightarrow> string \<Rightarrow> rmatch option" where
  "matchFirst ic r s = map_option fst (execFrom ic r (length s) (startState s))"

definition test :: "bool \<Rightarrow> regex \<Rightarrow> string \<Rightarrow> bool" where
  "test ic r s = (matchFirst ic r s \<noteq> None)"

text \<open>
  \<^verbatim>\<open>s.replace(r, t)\<close> for a pattern with the \<^verbatim>\<open>g\<close> flag and a replacement text \<open>t\<close>
  without \<^verbatim>\<open>$\<close>: every match is replaced by \<open>t\<close>. \<open>substMatches t i s others\<close> has the
  text \<open>s\<close> from index \<open>i\<close> on and the matches from there.
\<close>

fun substMatches :: "string \<Rightarrow> nat \<Rightarrow> string \<Rightarrow> rmatch list \<Rightarrow> string" where
  "substMatches t i s [] = s"
| "substMatches t i s (m # others) =
     take (index m - i) s @ t
     @ substMatches t (index m + length (whole m))
         (drop (index m + length (whole m) - i) s) others"

definition replaceAll :: "bool \<Rightarrow> regex \<Rightarrow> string \<Rightarrow> string \<Rightarrow> string" where
  "replaceAll ic r t s = substMatches t 0 s (matchAll ic r s)"

definition stripAll :: "bool \<Rightarrow> regex \<Rightarrow> string \<Rightarrow> string" where
  "stripAll ic r s = replaceAll ic r [] s"

text \<open>Exceptions, and running a list of steps until one throws.\<close>

datatype error = TypeError | SyntaxError

fun mapE :: "('a \<Rightarrow> error + 'b) \<Rightarrow> 'a list \<Rightarrow> error + 'b list" where
  "mapE f [] = Inr []"
| "mapE f (x # xs) =
     (case f x of
        Inl e \<Rightarrow> Inl e
      | Inr y \<Rightarrow> (case mapE f xs of Inl e \<Rightarrow> Inl e | Inr ys \<Rightarrow> Inr (y # ys)))"

text \<open>\<^verbatim>\<open>a || b\<close> for strings: \<open>a\<close> unless it is \<^verbatim>\<open>undefined\<close> or empty.\<close>

definition orStr :: "string option \<Rightarrow> string \<Rightarrow> string" where
  "orStr a b = (case a of None \<Rightarrow> b | Some x \<Rightarrow> if x = [] then b else x)"

text \<open>
  \<^verbatim>\<open>candidates.sort(cmp)\<close>: a stable sort by a comparator that returns a number,
  negative when its first argument comes first. It is written as the insertion sort
  that places each element after the elements it does not precede. Whenever the
  comparator orders the elements consistently, every stable sort returns this list.
\<close>

fun insertBy :: "('a \<Rightarrow> 'a \<Rightarrow> rat) \<Rightarrow> 'a \<Rightarrow> 'a list \<Rightarrow> 'a list" where
  "insertBy cmp x [] = [x]"
| "insertBy cmp x (y # ys) = (if cmp x y < 0 then x # y # ys else y # insertBy cmp x ys)"

definition sortBy :: "('a \<Rightarrow> 'a \<Rightarrow> rat) \<Rightarrow> 'a list \<Rightarrow> 'a list" where
  "sortBy cmp xs = foldl (\<lambda>acc x. insertBy cmp x acc) [] xs"

subsection \<open>The pattern tables\<close>

text \<open>
  A pattern literal: its source text (\<^verbatim>\<open>pattern.source\<close>, as code units, since the
  sources hold characters above \<open>U+00FF\<close>), its \<^verbatim>\<open>i\<close> flag and its syntax tree. In the
  transcribed sources the backslash is written \<^verbatim>\<open>%\<close>, which no source contains.
\<close>

record pattern =
  source :: "nat list"
  icase :: bool
  re :: regex

definition esc :: "string \<Rightarrow> nat list" where
  "esc s = map (\<lambda>c. if c = CHR ''%'' then 92 else cu c) s"

text \<open>
  The characters between \<^verbatim>\<open>$\<close> and \<^verbatim>\<open>Bs\<close> in the currency classes of the source file,
  as the file has them: \<open>U+00E2 U+201A U+00AC U+00C2 U+00A3 U+00C2 U+00A5 U+00E2 U+201A
  U+00B9\<close>.
\<close>

definition symUnits :: "nat list" where
  "symUnits = [0xE2, 0x201A, 0xAC, 0xC2, 0xA3, 0xC2, 0xA5, 0xE2, 0x201A, 0xB9]"

text \<open>The class \<^verbatim>\<open>[$...Bs]\<close> of the amount patterns and of \<^verbatim>\<open>normalizeAmount\<close>.\<close>

definition symClass :: "citem list" where
  "symClass = CChar CHR ''$'' # map CUnit symUnits @ [CChar CHR ''B'', CChar CHR ''s'']"

definition digit09 :: regex where
  "digit09 = Cls [CRange CHR ''0'' CHR ''9'']"

definition dotComma :: regex where
  "dotComma = Cls [CChar CHR ''.'', CChar CHR '','']"

text \<open>\<^verbatim>\<open>[0-9]{1,3}(?:[.,][0-9]{3})*(?:[.,][0-9]{2})?\<close> and its variants.\<close>

definition grouped :: "nat \<Rightarrow> nat \<Rightarrow> regex" where
  "grouped lo hi = Seqs [Between lo hi digit09,
                         Star (Seq dotComma (Times 3 digit09)),
                         Opt (Seq dotComma (Times 2 digit09))]"

text \<open>\<^verbatim>\<open>[0-9]+[.,][0-9]{2}\<close>\<close>

definition decimal2 :: regex where
  "decimal2 = Seqs [Plus digit09, dotComma, Times 2 digit09]"

definition ws :: regex where
  "ws = Star (Cls [CSpace])"

record patternConfig =
  pc_pattern :: pattern
  pc_confidence :: rat
  pc_description :: string

definition numSrc :: "nat list" where
  "numSrc = esc ''[0-9]{1,3}(?:[.,][0-9]{3})*(?:[.,][0-9]{2})?''"

definition symSrc :: "nat list" where
  "symSrc = esc ''[$'' @ symUnits @ esc ''Bs]''"

definition AMOUNT_PATTERNS :: "patternConfig list" where
  "AMOUNT_PATTERNS = [
     \<lparr>pc_pattern = \<lparr>source = esc ''('' @ symSrc @ esc '')%s*('' @ numSrc @ esc '')'',
             icase = True,
             re = Seqs [Grp 1 (Cls symClass), ws, Grp 2 (grouped 1 3)]\<rparr>,
      pc_confidence = 0.98, pc_description = ''Currency symbol + amount''\<rparr>,
     \<lparr>pc_pattern = \<lparr>source = esc ''(?:total|suma|subtotal|monto|importe|precio|valor|total%s*:|suma%s*:)%s*(''
                      @ symSrc @ esc ''?)%s*('' @ numSrc @ esc '')'',
             icase = True,
             re = Seqs [Alts [Lit ''total'', Lit ''suma'', Lit ''subtotal'', Lit ''monto'',
                              Lit ''importe'', Lit ''precio'', Lit ''valor'',
                              Seqs [Lit ''total'', ws, Chr CHR '':''],
                              Seqs [Lit ''suma'', ws, Chr CHR '':'']],
                        ws, Grp 1 (Opt (Cls symClass)), ws, Grp 2 (grouped 1 3)]\<rparr>,
      pc_confidence = 0.95, pc_description = ''Total/Suma pattern''\<rparr>,
     \<lparr>pc_pattern = \<lparr>source = esc ''('' @ numSrc @ esc '')%s*('' @ symSrc @ esc '')'',
             icase = True,
             re = Seqs [Grp 1 (grouped 1 3), ws, Grp 2 (Cls symClass)]\<rparr>,
      pc_confidence = 0.9, pc_description = ''Amount + currency''\<rparr>,
     \<lparr>pc_pattern = \<lparr>source = esc ''([0-9]+[.,][0-9]{2})%s*('' @ symSrc @ esc ''?)'',
             icase = True,
             re = Seqs [Grp 1 decimal2, ws, Grp 2 (Opt (Cls symClass))]\<rparr>,
      pc_confidence = 0.85, pc_description = ''Decimal amount''\<rparr>,
     \<lparr>pc_pattern = \<lparr>source = esc ''%b([0-9]{2,4}(?:[.,][0-9]{3})*(?:[.,][0-9]{2})?)%b'',
             icase = False,
             re = Seqs [WordB, Grp 1 (grouped 2 4), WordB]\<rparr>,
      pc_confidence = 0.7, pc_description = ''Large number''\<rparr>,
     \<lparr>pc_pattern = \<lparr>source = esc ''%b([0-9]+[.,][0-9]{2})%b'',
             icase = False,
             re = Seqs [WordB, Grp 1 decimal2, WordB]\<rparr>,
      pc_confidence = 0.6, pc_description = ''Decimal number''\<rparr>,
     \<lparr>pc_pattern = \<lparr>source = esc ''%b('' @ numSrc @ esc '')%b'',
             icase = False,
             re = Seqs [WordB, Grp 1 (grouped 1 3), WordB]\<rparr>,
      pc_confidence = 0.4, pc_description = ''Simple amount''\<rparr>]"

text \<open>
  \<^verbatim>\<open>CURRENCY_SYMBOLS\<close>, as code units, and the pattern
  \<^verbatim>\<open>new RegExp(`([${CURRENCY_SYMBOLS.join('')}]+)`, 'i')\<close>: one class of all their
  characters, once or more, as group 1.
\<close>

definition CURRENCY_SYMBOLS :: "nat list list" where
  "CURRENCY_SYMBOLS = [esc ''$'', [0xE2, 0x201A, 0xAC], [0xC2, 0xA3], [0xC2, 0xA5],
     [0xE2, 0x201A, 0xB9], esc ''Bs'', esc ''USD'', esc ''EUR'', esc ''GBP'', esc ''JPY'',
     esc ''INR'', esc ''BOB'']"

definition currencyRegExp :: regex where
  "currencyRegExp = Grp 1 (Plus (Cls (map CUnit (concat CURRENCY_SYMBOLS))))"

subsection \<open>\<^verbatim>\<open>normalizeAmount\<close>\<close>

definition isDotComma :: "char \<Rightarrow> bool" where
  "isDotComma c = (c = CHR ''.'' \<or> c = CHR '','')"

text \<open>
  Nothing in the body of \<^verbatim>\<open>normalizeAmount\<close> throws, so its \<^verbatim>\<open>catch\<close> branch is never
  taken. The indices \<open>0\<close>, \<open>1\<close>, \<open>2\<close> are read only under the matching test of
  \<^verbatim>\<open>parts.length\<close>.
\<close>

definition normalizeAmount :: "string \<Rightarrow> rat option" where
  "normalizeAmount amountStr =
     (if amountStr = [] \<or> length (trim amountStr) = 0 then None
      else
        let cleaned0 = trim (stripAll False (Cls symClass) amountStr);
            cleaned = stripAll False (NCls [CDigit, CChar CHR ''.'', CChar CHR '','']) cleaned0
        in
        if length cleaned = 0 then None
        else
          let parts = splitOn isDotComma cleaned in
          if length parts = 1 then map_option of_int (parseInt10 cleaned)
          else if length parts = 2 then
            (let leftPart = parts ! 0; rightPart = parts ! 1 in
             if length rightPart \<le> 2
             then parseFloat (stripAll False (NCls [CDigit]) leftPart @ ''.'' @ rightPart)
             else parseFloat (leftPart @ rightPart))
          else if length parts = 3 then
            (let thousandsPart = parts ! 0; hundredsPart = parts ! 1; decimalPart = parts ! 2 in
             if length decimalPart \<le> 2
             then parseFloat ((thousandsPart @ hundredsPart) @ ''.'' @ decimalPart)
             else parseFloat (thousandsPart @ hundredsPart @ decimalPart))
          else
            (let lastPart = last parts in
             if length lastPart \<le> 2
             then parseFloat (concat (butlast parts) @ ''.'' @ lastPart)
             else parseFloat (concat parts)))"

subsection \<open>\<^verbatim>\<open>extractAmount\<close>\<close>

record candidate =
  c_amount :: rat
  c_currency :: string
  c_confidence :: rat
  c_position :: nat
  c_pattern :: string

record amountResult =
  a_amount :: "rat option"
  a_currency :: "string option"
  a_confidence :: rat

text \<open>
  The two tests of \<^verbatim>\<open>patternConfig.pattern.source.includes(...)\<close> look for the texts
  \<^verbatim>\<open>\$...Bs.*\d\<close> and \<^verbatim>\<open>\d.*\$...Bs\<close> (the dots stand for the ten characters of
  \<^const>\<open>symUnits\<close>) in the source of the pattern.
\<close>

definition symbolFirstNeedle :: "nat list" where
  "symbolFirstNeedle = esc ''%$'' @ symUnits @ esc ''Bs.*%d''"

definition amountFirstNeedle :: "nat list" where
  "amountFirstNeedle = esc ''%d.*%$'' @ symUnits @ esc ''Bs''"

text \<open>
  The strings \<^verbatim>\<open>amountStr\<close> and \<^verbatim>\<open>currency\<close> of one match, before the final \<^verbatim>\<open>trim\<close>.
  In the third branch \<^verbatim>\<open>currencyMatch[1]\<close> is read; \<^verbatim>\<open>currency.trim()\<close> throws a
  \<^verbatim>\<open>TypeError\<close> if it is \<^verbatim>\<open>undefined\<close>.
\<close>

definition amountAndCurrency :: "patternConfig \<Rightarrow> rmatch \<Rightarrow> error + (string \<times> string)" where
  "amountAndCurrency patternConfig m =
     (if includesStr (source (pc_pattern patternConfig)) symbolFirstNeedle
      then Inr (orStr (grp m 2) [], orStr (grp m 1) [])
      else if includesStr (source (pc_pattern patternConfig)) amountFirstNeedle
      then Inr (orStr (grp m 1) [], orStr (grp m 2) [])
      else
        let amountStr = orStr (grp m 1) (orStr (grp m 2) []);
            currency = orStr (grp m 1) (orStr (grp m 2) [])
        in
        if list_ex (\<lambda>symbol. includesStr (map cu amountStr) symbol) CURRENCY_SYMBOLS
        then (case matchFirst True currencyRegExp amountStr of
                None \<Rightarrow> Inr (amountStr, currency)
              | Some currencyMatch \<Rightarrow>
                  (case grp currencyMatch 1 of
                     None \<Rightarrow> Inl TypeError
                   | Some currency' \<Rightarrow> Inr (trim (removeFirst amountStr currency'), currency')))
        else Inr (amountStr, currency))"

text \<open>The confidence of a candidate, before the final \<^verbatim>\<open>Math.min(confidence, 1.0)\<close>.\<close>

definition adjustConfidence :: "rat \<Rightarrow> string \<Rightarrow> rat \<Rightarrow> string \<Rightarrow> nat \<Rightarrow> rat" where
  "adjustConfidence base currency normalizedAmount text idx =
     (let confidence = base;
          confidence = (if currency \<noteq> [] then min (confidence + 0.05) 1.0 else confidence);
          confidence = (if normalizedAmount > 50 then confidence + 0.02 else confidence);
          confidence = (if normalizedAmount > 100 then confidence + 0.03 else confidence);
          confidence = (if normalizedAmount > 1000 then confidence + 0.02 else confidence);
          confidence = (if normalizedAmount < 1 then confidence - 0.2 else confidence);
          confidence = (if normalizedAmount < 0.1 then confidence - 0.3 else confidence);
          contextBefore = toLowerCase (substring text (idx - 20) idx);
          contextAfter = toLowerCase (substring text idx (idx + 20))
      in if includesStr contextBefore ''total'' \<or> includesStr contextBefore ''suma''
            \<or> includesStr contextAfter ''total'' \<or> includesStr contextAfter ''suma''
         then confidence + 0.1 else confidence)"

text \<open>
  The body of the inner \<^verbatim>\<open>forEach\<close>: the candidate pushed for one match, if any.
  \<open>idx - 20\<close> on \<^typ>\<open>nat\<close> is \<^verbatim>\<open>Math.max(0, match.index - 20)\<close>.
\<close>

definition amountCandidate :: "string \<Rightarrow> patternConfig \<Rightarrow> rmatch \<Rightarrow> error + candidate option" where
  "amountCandidate text patternConfig m =
     (case amountAndCurrency patternConfig m of
        Inl e \<Rightarrow> Inl e
      | Inr (amountStr0, currency0) \<Rightarrow>
          let amountStr = trim amountStr0;
              currency = trim currency0
          in (case normalizeAmount amountStr of
                None \<Rightarrow> Inr None
              | Some normalizedAmount \<Rightarrow>
                  if normalizedAmount \<noteq> 0 \<and> normalizedAmount > 0
                  then Inr (Some
                    \<lparr>c_amount = normalizedAmount,
                     c_currency = (if currency \<noteq> [] then currency else ''USD''),
                     c_confidence = min (adjustConfidence (pc_confidence patternConfig) currency
                                           normalizedAmount text (index m)) 1.0,
                     c_position = index m,
                     c_pattern = pc_description patternConfig\<rparr>)
                  else Inr None))"

text \<open>The candidates of one pattern, and of all patterns, in the order of the pushes.\<close>

definition patternCandidates :: "string \<Rightarrow> patternConfig \<Rightarrow> error + candidate list" where
  "patternCandidates text patternConfig =
     (case mapE (amountCandidate text patternConfig)
             (matchAll (icase (pc_pattern patternConfig)) (re (pc_pattern patternConfig)) text) of
        Inl e \<Rightarrow> Inl e
      | Inr cs \<Rightarrow> Inr (List.map_filter id cs))"

definition amountCandidates :: "string \<Rightarrow> error + candidate list" where
  "amountCandidates text =
     (case mapE (patternCandidates text) AMOUNT_PATTERNS of
        Inl e \<Rightarrow> Inl e
      | Inr css \<Rightarrow> Inr (concat css))"

definition compareCandidates :: "candidate \<Rightarrow> candidate \<Rightarrow> rat" where
  "compareCandidates a b =
     (if \<bar>c_confidence a - c_confidence b\<bar> < 0.05 then c_amount b - c_amount a
      else c_confidence b - c_confidence a)"

text \<open>
  \<^verbatim>\<open>candidates[0]\<close> of an empty array is \<^verbatim>\<open>undefined\<close>, and reading \<^verbatim>\<open>bestMatch.amount\<close>
  would then throw.
\<close>

definition extractAmount :: "string \<Rightarrow> error + amountResult" where
  "extractAmount text =
     (case amountCandidates text of
        Inl e \<Rightarrow> Inl e
      | Inr candidates \<Rightarrow>
          if length candidates = 0
          then Inr \<lparr>a_amount = None, a_currency = None, a_confidence = 0\<rparr>
          else (case sortBy compareCandidates candidates of
                  [] \<Rightarrow> Inl TypeError
                | bestMatch # _ \<Rightarrow>
                    Inr \<lparr>a_amount = Some (c_amount bestMatch),
                         a_currency = Some (c_currency bestMatch),
                         a_confidence = c_confidence bestMatch\<rparr>))"

subsection \<open>\<^verbatim>\<open>extractDate\<close>\<close>

definition digitD :: regex where
  "digitD = Cls [CDigit]"

definition slashDash :: regex where
  "slashDash = Cls [CChar CHR ''/'', CChar CHR ''-'']"

definition monthAlternatives :: "string list" where
  "monthAlternatives = [''enero'', ''febrero'', ''marzo'', ''abril'', ''mayo'', ''junio'', ''julio'',
     ''agosto'', ''septiembre'', ''octubre'', ''noviembre'', ''diciembre'', ''january'',
     ''february'', ''march'', ''april'', ''may'', ''june'', ''july'', ''august'', ''september'',
     ''october'', ''november'', ''december'']"

definition DATE_PATTERNS :: "pattern list" where
  "DATE_PATTERNS = [
     \<lparr>source = esc ''%b(%d{1,2})[%/%-](%d{1,2})[%/%-](%d{4})%b'',
      icase = False,
      re = Seqs [WordB, Grp 1 (Between 1 2 digitD), slashDash, Grp 2 (Between 1 2 digitD),
                 slashDash, Grp 3 (Times 4 digitD), WordB]\<rparr>,
     \<lparr>source = esc ''%b(%d{4})[%/%-](%d{1,2})[%/%-](%d{1,2})%b'',
      icase = False,
      re = Seqs [WordB, Grp 1 (Times 4 digitD), slashDash, Grp 2 (Between 1 2 digitD),
                 slashDash, Grp 3 (Between 1 2 digitD), WordB]\<rparr>,
     \<lparr>source = esc (''%b(%d{1,2})%s+(enero|febrero|marzo|abril|mayo|junio|julio|agosto|''
                    @ ''septiembre|octubre|noviembre|diciembre|january|february|march|april|''
                    @ ''may|june|july|august|september|october|november|december)%s+(%d{4})%b''),
      icase = True,
      re = Seqs [WordB, Grp 1 (Between 1 2 digitD), Plus (Cls [CSpace]),
                 Grp 2 (Alts (map Lit monthAlternatives)), Plus (Cls [CSpace]),
                 Grp 3 (Times 4 digitD), WordB]\<rparr>]"

definition MONTH_NAMES_en :: "string list" where
  "MONTH_NAMES_en = [''january'', ''february'', ''march'', ''april'', ''may'', ''june'',
     ''july'', ''august'', ''september'', ''october'', ''november'', ''december'']"

definition MONTH_NAMES_es :: "string list" where
  "MONTH_NAMES_es = [''enero'', ''febrero'', ''marzo'', ''abril'', ''mayo'', ''junio'',
     ''julio'', ''agosto'', ''septiembre'', ''octubre'', ''noviembre'', ''diciembre'']"

text \<open>\<^verbatim>\<open>xs.findIndex(p)\<close>: the index of the first element that satisfies \<open>p\<close>, or \<open>-1\<close>.\<close>

fun findIndex :: "('a \<Rightarrow> bool) \<Rightarrow> 'a list \<Rightarrow> int" where
  "findIndex p [] = -1"
| "findIndex p (x # xs) =
     (if p x then 0 else (let i = findIndex p xs in if i = -1 then -1 else i + 1))"

definition findMonthIndex :: "string \<Rightarrow> int" where
  "findMonthIndex monthName =
     (let lowerMonth = toLowerCase monthName;
          spanishIndex = findIndex (\<lambda>month. toLowerCase month = lowerMonth) MONTH_NAMES_es
      in if spanishIndex \<noteq> -1 then spanishIndex
         else findIndex (\<lambda>month. toLowerCase month = lowerMonth) MONTH_NAMES_en)"

definition isLeapYear :: "int \<Rightarrow> bool" where
  "isLeapYear y = (y mod 4 = 0 \<and> (y mod 100 \<noteq> 0 \<or> y mod 400 = 0))"

definition daysInMonth :: "int \<Rightarrow> int \<Rightarrow> int" where
  "daysInMonth y m =
     (if m = 2 then (if isLeapYear y then 29 else 28)
      else if m = 4 \<or> m = 6 \<or> m = 9 \<or> m = 11 then 30 else 31)"

text \<open>
  \<^verbatim>\<open>isValidDate\<close>. A comparison with \<open>NaN\<close> is false, so a \<open>NaN\<close> passes the three range
  tests and fails the last test, where \<^verbatim>\<open>NaN === NaN\<close> is false. For numbers in the
  ranges, \<^verbatim>\<open>new Date(year, month - 1, day)\<close> has the same year, month and day exactly
  when the month has that day; otherwise the date rolls over into the next month.
\<close>

definition isValidDate :: "int option \<Rightarrow> int option \<Rightarrow> int option \<Rightarrow> bool" where
  "isValidDate year month day =
     (if (case year of None \<Rightarrow> False | Some y \<Rightarrow> y < 1900 \<or> y > 2100) then False
      else if (case month of None \<Rightarrow> False | Some m \<Rightarrow> m < 1 \<or> m > 12) then False
      else if (case day of None \<Rightarrow> False | Some d \<Rightarrow> d < 1 \<or> d > 31) then False
      else (case (year, month, day) of
              (Some y, Some m, Some d) \<Rightarrow> d \<le> daysInMonth y m
            | _ \<Rightarrow> False))"

definition showInt :: "int \<Rightarrow> string" where
  "showInt i = (if i < 0 then CHR ''-'' # showNat (nat (- i)) else showNat (nat i))"

text \<open>
  The body of the inner loop of \<^verbatim>\<open>extractDate\<close> for one match: the ISO date that is
  returned, or \<^const>\<open>None\<close> when the loop continues. In the second branch
  \<^verbatim>\<open>match[2].toLowerCase()\<close> on \<^verbatim>\<open>undefined\<close> throws, and the \<^verbatim>\<open>catch\<close> continues.
\<close>

definition dateOfMatch :: "pattern \<Rightarrow> rmatch \<Rightarrow> string option" where
  "dateOfMatch pattern m =
     (let ymd =
        (if includesStr (source pattern) (esc ''%d{4}'')
         then Some (parseInt (grp m 1), parseInt (grp m 2), parseInt (grp m 3))
         else if includesStr (source pattern) (esc ''enero|febrero'')
         then (case grp m 2 of
                 None \<Rightarrow> None
               | Some g2 \<Rightarrow>
                   let monthIndex = findMonthIndex (toLowerCase g2) in
                   if monthIndex \<noteq> -1
                   then (if isPrefix (esc ''%b(%d{1,2})'') (source pattern)
                         then Some (parseInt (grp m 3), Some (monthIndex + 1), parseInt (grp m 1))
                         else Some (parseInt (grp m 3), Some (monthIndex + 1), parseInt (grp m 2)))
                   else None)
         else
           (let first = parseInt (grp m 1);
                second = parseInt (grp m 2);
                third = parseInt (grp m 3)
            in if (case first of None \<Rightarrow> False | Some f \<Rightarrow> f > 12)
               then Some (third, second, first)
               else Some (third, first, second)))
      in case ymd of
           None \<Rightarrow> None
         | Some (year, month, day) \<Rightarrow>
             if isValidDate year month day
             then Some (showInt (the year) @ ''-'' @ padStart0 2 (showInt (the month))
                        @ ''-'' @ padStart0 2 (showInt (the day)))
             else None)"

fun firstSome :: "('a \<Rightarrow> 'b option) \<Rightarrow> 'a list \<Rightarrow> 'b option" where
  "firstSome f [] = None"
| "firstSome f (x # xs) = (case f x of Some y \<Rightarrow> Some y | None \<Rightarrow> firstSome f xs)"

record dateResult =
  d_date :: "string option"
  d_confidence :: rat

definition extractDate :: "string \<Rightarrow> dateResult" where
  "extractDate text =
     (case firstSome (\<lambda>pattern. firstSome (dateOfMatch pattern)
                                   (matchAll (icase pattern) (re pattern) text))
             DATE_PATTERNS of
        Some isoDate \<Rightarrow> \<lparr>d_date = Some isoDate, d_confidence = 0.9\<rparr>
      | None \<Rightarrow> \<lparr>d_date = None, d_confidence = 0\<rparr>)"

subsection \<open>\<^verbatim>\<open>extractProvider\<close>\<close>

text \<open>A pattern of a scanner with its fixed confidence.\<close>

record scanRule =
  r_icase :: bool
  r_re :: regex
  r_confidence :: rat

definition upperAZ :: regex where
  "upperAZ = Cls [CRange CHR ''A'' CHR ''Z'']"

definition lowerAZ :: regex where
  "lowerAZ = Cls [CRange CHR ''a'' CHR ''z'']"

text \<open>\<^verbatim>\<open>[a-zA-Z\s&]\<close>\<close>

definition nameChar :: regex where
  "nameChar = Cls [CRange CHR ''a'' CHR ''z'', CRange CHR ''A'' CHR ''Z'', CSpace, CChar CHR ''&'']"

text \<open>
  The five provider patterns. In the source file \<^verbatim>\<open>Caf\<close> is followed by the two
  characters \<open>U+00C3 U+00A9\<close>, and \<^verbatim>\<open>raz\<close> by \<open>U+00C3 U+00B3\<close> (two dots below).
  \<^item> \<^verbatim>\<open>/\b([A-Z][a-zA-Z\s&]+(?:Store|Shop|Tienda|Empresa|Company|Corp|Inc|Ltd|S\.A\.|S\.L\.|Restaurant|Caf..|Supermercado|Farmacia))\b/g\<close>
  \<^item> \<^verbatim>\<open>/(?:raz..n\s*social|business\s*name|company|proveedor|vendor)\s*:?\s*([A-Z][a-zA-Z\s&]{3,40})/gi\<close>
  \<^item> \<^verbatim>\<open>/\b([A-Z][a-zA-Z\s&]{3,30})\s*(?:receipt|factura|ticket|recibo|comprobante)/gi\<close>
  \<^item> \<^verbatim>\<open>/\b([A-Z][a-z]+(?:\s+[A-Z][a-z]+){1,4})\b/g\<close>
  \<^item> \<^verbatim>\<open>/\b([A-Z][a-zA-Z\s&]{4,25})\s*(?:Av\.|Calle|Street|Avenue|Road)/gi\<close>
\<close>

definition providerPatterns :: "scanRule list" where
  "providerPatterns = [
     \<lparr>r_icase = False,
      r_re = Seqs [WordB,
                   Grp 1 (Seqs [upperAZ, Plus nameChar,
                     Alts [Lit ''Store'', Lit ''Shop'', Lit ''Tienda'', Lit ''Empresa'',
                           Lit ''Company'', Lit ''Corp'', Lit ''Inc'', Lit ''Ltd'', Lit ''S.A.'',
                           Lit ''S.L.'', Lit ''Restaurant'', Lit (''Caf'' @ [CHR 0xC3, CHR 0xA9]),
                           Lit ''Supermercado'', Lit ''Farmacia'']]),
                   WordB],
      r_confidence = 0.9\<rparr>,
     \<lparr>r_icase = True,
      r_re = Seqs [Alts [Seqs [Lit (''raz'' @ [CHR 0xC3, CHR 0xB3] @ ''n''), ws, Lit ''social''],
                         Seqs [Lit ''business'', ws, Lit ''name''],
                         Lit ''company'', Lit ''proveedor'', Lit ''vendor''],
                   ws, Opt (Chr CHR '':''), ws,
                   Grp 1 (Seq upperAZ (Between 3 40 nameChar))],
      r_confidence = 0.85\<rparr>,
     \<lparr>r_icase = True,
      r_re = Seqs [WordB, Grp 1 (Seq upperAZ (Between 3 30 nameChar)), ws,
                   Alts [Lit ''receipt'', Lit ''factura'', Lit ''ticket'', Lit ''recibo'',
                         Lit ''comprobante'']],
      r_confidence = 0.8\<rparr>,
     \<lparr>r_icase = False,
      r_re = Seqs [WordB,
                   Grp 1 (Seqs [upperAZ, Plus lowerAZ,
                                Between 1 4 (Seqs [Plus (Cls [CSpace]), upperAZ, Plus lowerAZ])]),
                   WordB],
      r_confidence = 0.6\<rparr>,
     \<lparr>r_icase = True,
      r_re = Seqs [WordB, Grp 1 (Seq upperAZ (Between 4 25 nameChar)), ws,
                   Alts [Lit ''Av.'', Lit ''Calle'', Lit ''Street'', Lit ''Avenue'', Lit ''Road'']],
      r_confidence = 0.7\<rparr>]"

definition providerSkipWords :: "string list" where
  "providerSkipWords = [''TOTAL'', ''SUBTOTAL'', ''IVA'', ''DESCUENTO'', ''PAGO'', ''FECHA'', ''HORA'',
     ''CANTIDAD'', ''PRECIO'', ''ITEM'']"

text \<open>\<^verbatim>\<open>s.replace(/\s+/g, ' ').trim()\<close>\<close>

definition collapseSpaces :: "string \<Rightarrow> string" where
  "collapseSpaces s = trim (replaceAll False (Plus (Cls [CSpace])) '' '' s)"

text \<open>
  The body of the inner loop for one match: the new value of \<^verbatim>\<open>bestMatch\<close>.
  \<^verbatim>\<open>match[1].trim()\<close> throws a \<^verbatim>\<open>TypeError\<close> if group 1 is \<^verbatim>\<open>undefined\<close>.
  \<^verbatim>\<open>bestMatch?.confidence || 0\<close> is the confidence of the best match so far, or 0.
\<close>

definition providerStep ::
  "rat \<Rightarrow> (string \<times> rat) option \<Rightarrow> rmatch \<Rightarrow> error + (string \<times> rat) option" where
  "providerStep confidence bestMatch m =
     (case grp m 1 of
        None \<Rightarrow> Inl TypeError
      | Some g1 \<Rightarrow>
          let provider = collapseSpaces (trim g1) in
          if length provider < 3 \<or> length provider > 50 then Inr bestMatch
          else if list_ex (\<lambda>word. includesStr (toUpperCase provider) word) providerSkipWords
          then Inr bestMatch
          else if test False digitD provider \<and> length provider < 8 then Inr bestMatch
          else if confidence > (case bestMatch of None \<Rightarrow> 0 | Some b \<Rightarrow> snd b)
          then Inr (Some (provider, confidence))
          else Inr bestMatch)"

fun foldE :: "('s \<Rightarrow> 'a \<Rightarrow> error + 's) \<Rightarrow> 's \<Rightarrow> 'a list \<Rightarrow> error + 's" where
  "foldE f s [] = Inr s"
| "foldE f s (x # xs) = (case f s x of Inl e \<Rightarrow> Inl e | Inr s' \<Rightarrow> foldE f s' xs)"

record providerResult =
  p_provider :: "string option"
  p_confidence :: rat

definition extractProvider :: "string \<Rightarrow> error + providerResult" where
  "extractProvider text =
     (case foldE (\<lambda>bestMatch rule.
                    foldE (providerStep (r_confidence rule)) bestMatch
                      (matchAll (r_icase rule) (r_re rule) text))
             None providerPatterns of
        Inl e \<Rightarrow> Inl e
      | Inr None \<Rightarrow> Inr \<lparr>p_provider = None, p_confidence = 0\<rparr>
      | Inr (Some (provider, confidence)) \<Rightarrow>
          Inr \<lparr>p_provider = Some provider, p_confidence = confidence\<rparr>)"

subsection \<open>\<^verbatim>\<open>extractDescription\<close>\<close>

text \<open>\<^verbatim>\<open>[A-Za-z0-9\s\-,.]\<close>, and the same with the two parentheses.\<close>

definition textItems :: "citem list" where
  "textItems = [CRange CHR ''A'' CHR ''Z'', CRange CHR ''a'' CHR ''z'', CRange CHR ''0'' CHR ''9'',
                CSpace, CChar CHR ''-'', CChar CHR '','', CChar CHR ''.'']"

definition letterAZaz :: regex where
  "letterAZaz = Cls [CRange CHR ''A'' CHR ''Z'', CRange CHR ''a'' CHR ''z'']"

text \<open>
  The three description patterns. In the source file \<^verbatim>\<open>descripci\<close> is followed by
  \<open>U+00C3 U+00B3\<close>, and \<^verbatim>\<open>art\<close> by \<open>U+00C3 U+00AD\<close> (two dots below); the class of
  currency characters is \<^const>\<open>symClass\<close>.
  \<^item> \<^verbatim>\<open>/(?:concepto|description|descripci..n|item|art..culo|producto|servicio)\s*:?\s*([A-Za-z0-9\s\-,.()]{5,60})/gi\<close>
  \<^item> \<^verbatim>\<open>/\b(\d+)\s+([A-Za-z][A-Za-z0-9\s\-,.]{5,40})\s+[\d.,]+\s*[$...Bs]?/gi\<close>
  \<^item> \<^verbatim>\<open>/\b([A-Za-z][A-Za-z0-9\s\-,.]{8,50})\b/g\<close>
\<close>

definition descriptionPatterns :: "scanRule list" where
  "descriptionPatterns = [
     \<lparr>r_icase = True,
      r_re = Seqs [Alts [Lit ''concepto'', Lit ''description'',
                         Lit (''descripci'' @ [CHR 0xC3, CHR 0xB3] @ ''n''), Lit ''item'',
                         Lit (''art'' @ [CHR 0xC3, CHR 0xAD] @ ''culo''), Lit ''producto'',
                         Lit ''servicio''],
                   ws, Opt (Chr CHR '':''), ws,
                   Grp 1 (Between 5 60 (Cls (textItems @ [CChar CHR ''('', CChar CHR '')''])))],
      r_confidence = 0.9\<rparr>,
     \<lparr>r_icase = True,
      r_re = Seqs [WordB, Grp 1 (Plus digitD), Plus (Cls [CSpace]),
                   Grp 2 (Seq letterAZaz (Between 5 40 (Cls textItems))),
                   Plus (Cls [CSpace]),
                   Plus (Cls [CDigit, CChar CHR ''.'', CChar CHR '','']),
                   ws, Opt (Cls symClass)],
      r_confidence = 0.8\<rparr>,
     \<lparr>r_icase = False,
      r_re = Seqs [WordB, Grp 1 (Seq letterAZaz (Between 8 50 (Cls textItems))), WordB],
      r_confidence = 0.6\<rparr>]"

definition descriptionSkipWords :: "string list" where
  "descriptionSkipWords = [''TOTAL'', ''SUBTOTAL'', ''IVA'', ''DESCUENTO'', ''PAGO'', ''FECHA'',
     ''HORA'', ''CANTIDAD'', ''PRECIO'']"

text \<open>\<^verbatim>\<open>/^[A-Z][a-z]+(?:\s+[A-Z][a-z]+){1,3}$/\<close>\<close>

definition properNameRegExp :: regex where
  "properNameRegExp = Seqs [Bol, upperAZ, Plus lowerAZ,
                            Between 1 3 (Seqs [Plus (Cls [CSpace]), upperAZ, Plus lowerAZ]), Eol]"

text \<open>
  The body of the inner loop for one match: the description and its adjusted
  confidence if the match passes every filter, \<^const>\<open>None\<close> where the loop continues.
\<close>

definition descriptionCandidate :: "string option \<Rightarrow> rat \<Rightarrow> rmatch \<Rightarrow> (string \<times> rat) option" where
  "descriptionCandidate provider confidence m =
     (let description0 = orStr (map_option trim (grp m 1)) (orStr (map_option trim (grp m 2)) []) in
      if length description0 < 5 \<or> length description0 > 100 then None
      else
        let description = collapseSpaces description0 in
        if test False properNameRegExp description
           \<and> \<not> includesStr (toLowerCase description) ''compra'' then None
        else if list_ex (\<lambda>word. includesStr (toUpperCase description) word) descriptionSkipWords
        then None
        else if truthyStr provider
                \<and> includesStr (toLowerCase description) (toLowerCase (the provider)) then None
        else
          let adjustedConfidence =
                (if includesStr (toLowerCase description) ''compra''
                    \<or> includesStr (toLowerCase description) ''purchase''
                    \<or> includesStr (toLowerCase description) ''producto''
                    \<or> includesStr (toLowerCase description) ''servicio''
                 then confidence + 0.1 else confidence)
          in Some (description, adjustedConfidence))"

text \<open>The matches that pass the filters, over all patterns, in the order of the loops.\<close>

definition descriptionCandidates :: "string \<Rightarrow> string option \<Rightarrow> (string \<times> rat) list" where
  "descriptionCandidates text provider =
     concat (map (\<lambda>rule. List.map_filter (descriptionCandidate provider (r_confidence rule))
                             (matchAll (r_icase rule) (r_re rule) text))
                 descriptionPatterns)"

text \<open>The update of \<^verbatim>\<open>bestDescription\<close> and \<^verbatim>\<open>bestConfidence\<close> by one surviving match.\<close>

definition descriptionStep :: "string option \<times> rat \<Rightarrow> string \<times> rat \<Rightarrow> string option \<times> rat" where
  "descriptionStep best cand =
     (if snd cand > snd best then (Some (fst cand), snd cand) else best)"

record descriptionResult =
  ds_description :: "string option"
  ds_confidence :: rat

definition extractDescription :: "string \<Rightarrow> string option \<Rightarrow> descriptionResult" where
  "extractDescription text provider =
     (let (bestDescription, bestConfidence) =
            foldl descriptionStep (None, 0) (descriptionCandidates text provider)
      in if \<not> truthyStr bestDescription \<and> truthyStr provider
         then \<lparr>ds_description = Some (''Compra en '' @ the provider), ds_confidence = 0.5\<rparr>
         else if \<not> truthyStr bestDescription
         then \<lparr>ds_description = Some ''Gasto registrado'', ds_confidence = 0.3\<rparr>
         else \<lparr>ds_description = bestDescription, ds_confidence = bestConfidence\<rparr>)"

subsection \<open>\<^verbatim>\<open>heuristicExtraction\<close>\<close>

record confidences =
  conf_amount :: rat
  conf_date :: rat
  conf_provider :: rat
  conf_description :: rat

record ExtractedData =
  description :: "string option"
  provider :: "string option"
  amount :: "rat option"
  currency :: "string option"
  date :: "string option"
  confidence :: confidences

record ExtractionResult =
  data :: ExtractedData
  shouldUseLLM :: bool
  overallConfidence :: rat

definition weightedConfidence :: "confidences \<Rightarrow> rat" where
  "weightedConfidence c =
     conf_amount c * 0.4 + conf_date c * 0.3 + conf_provider c * 0.2 + conf_description c * 0.1"

definition heuristicExtraction :: "string \<Rightarrow> error + ExtractionResult" where
  "heuristicExtraction text =
     (case extractAmount text of
        Inl e \<Rightarrow> Inl e
      | Inr amountResult \<Rightarrow>
          let dateResult = extractDate text in
          (case extractProvider text of
             Inl e \<Rightarrow> Inl e
           | Inr providerResult \<Rightarrow>
               let descriptionResult = extractDescription text (p_provider providerResult);
                   d = \<lparr>description = ds_description descriptionResult,
                        provider = p_provider providerResult,
                        amount = a_amount amountResult,
                        currency = a_currency amountResult,
                        date = d_date dateResult,
                        confidence = \<lparr>conf_amount = a_confidence amountResult,
                                      conf_date = d_confidence dateResult,
                                      conf_provider = p_confidence providerResult,
                                      conf_description = ds_confidence descriptionResult\<rparr>\<rparr>
               in Inr \<lparr>data = d,
                       shouldUseLLM = (weightedConfidence (confidence d) < 0.6
                                       \<or> \<not> truthyNum (amount d)
                                       \<or> (\<not> truthyStr (date d) \<and> \<not> truthyStr (provider d))),
                       overallConfidence = weightedConfidence (confidence d)\<rparr>))"

subsection \<open>\<^verbatim>\<open>validateAndFixFields\<close>\<close>

text \<open>
  \<^verbatim>\<open>new RegExp(result.provider, 'gi')\<close> compiles a text that the caller supplies. The
  pattern grammar of the runtime is modelled on two fragments, and a function that
  reaches a pattern outside them is \<open>NotModelled\<close>:
  \<^item> a text without syntax characters other than the dot is the sequence of its
    characters, the dot matching any character but a line terminator;
  \<^item> a text that starts with a quantifier (\<^verbatim>\<open>*\<close>, \<^verbatim>\<open>+\<close>, \<^verbatim>\<open>?\<close>), or that opens a group and has
    no closing parenthesis, no class and no escape, is rejected with a \<^verbatim>\<open>SyntaxError\<close>.
\<close>

datatype 'a outcome = Returns 'a | Throws error | NotModelled

definition isSyntaxCharacter :: "char \<Rightarrow> bool" where
  "isSyntaxCharacter c = (c \<in> set ''^$.*+?()[]{}|'' \<or> cu c = 92)"

definition RegExp_new :: "string \<Rightarrow> regex outcome" where
  "RegExp_new p =
     (if list_all (\<lambda>c. \<not> isSyntaxCharacter c \<or> c = CHR ''.'') p
      then Returns (Seqs (map (\<lambda>c. if c = CHR ''.'' then AnyChar else Chr c) p))
      else if (case p of [] \<Rightarrow> False | c # _ \<Rightarrow> c \<in> set ''*+?'')
      then Throws SyntaxError
      else if CHR ''('' \<in> set p \<and> CHR '')'' \<notin> set p \<and> CHR ''['' \<notin> set p
              \<and> list_all (\<lambda>c. cu c \<noteq> 92) p
      then Throws SyntaxError
      else NotModelled)"

text \<open>
  The patterns of the repair pass.
  \<^item> \<^verbatim>\<open>/(\d+[.,]?\d*)/g\<close>
  \<^item> \<^verbatim>\<open>/([A-Z......][a-z......\s]+(?:ABC|XYZ|S\.A\.|S\.A|Corp|Inc|Ltd|Restaurant|Tienda|Supermercado|Farmacia))/i\<close>,
    the dots being the six accented capitals \<open>U+00C1 U+00C9 U+00CD U+00D3 U+00DA U+00D1\<close>
    and the six accented small letters \<open>U+00E1 U+00E9 U+00ED U+00F3 U+00FA U+00F1\<close>
  \<^item> \<^verbatim>\<open>/(\d{1,2}[\/\-]\d{1,2}[\/\-]\d{2,4})/\<close>
  \<^item> \<^verbatim>\<open>/\$?\d+[.,]?\d*\s*(USD|EUR|Bs|.|.|.)?/g\<close>, the last three alternatives being the
    euro sign \<open>U+20AC\<close>, the pound sign \<open>U+00A3\<close> and the yen sign \<open>U+00A5\<close>
  \<^item> \<^verbatim>\<open>/\d{1,2}[\/\-]\d{1,2}[\/\-]\d{2,4}/g\<close>
\<close>

definition numberRegExp :: regex where
  "numberRegExp = Grp 1 (Seqs [Plus digitD, Opt dotComma, Star digitD])"

definition providerRegExp :: regex where
  "providerRegExp =
     Grp 1 (Seqs [Cls [CRange CHR ''A'' CHR ''Z'', CChar (CHR 0xC1), CChar (CHR 0xC9),
                       CChar (CHR 0xCD), CChar (CHR 0xD3), CChar (CHR 0xDA), CChar (CHR 0xD1)],
                  Plus (Cls [CRange CHR ''a'' CHR ''z'', CChar (CHR 0xE1), CChar (CHR 0xE9),
                             CChar (CHR 0xED), CChar (CHR 0xF3), CChar (CHR 0xFA),
                             CChar (CHR 0xF1), CSpace]),
                  Alts [Lit ''ABC'', Lit ''XYZ'', Lit ''S.A.'', Lit ''S.A'', Lit ''Corp'', Lit ''Inc'',
                        Lit ''Ltd'', Lit ''Restaurant'', Lit ''Tienda'', Lit ''Supermercado'',
                        Lit ''Farmacia'']])"

definition shortDate :: regex where
  "shortDate = Seqs [Between 1 2 digitD, slashDash, Between 1 2 digitD, slashDash,
                     Between 2 4 digitD]"

definition amountShape :: regex where
  "amountShape = Seqs [Opt (Chr CHR ''$''), Plus digitD, Opt dotComma, Star digitD, ws,
                       Opt (Grp 1 (Alts [Lit ''USD'', Lit ''EUR'', Lit ''Bs'', Cls [CUnit 0x20AC],
                                         Chr (CHR 0xA3), Chr (CHR 0xA5)]))]"

text \<open>\<^verbatim>\<open>Math.max(...amounts)\<close> of a non-empty list: \<open>NaN\<close> if one of them is.\<close>

definition mathMax :: "rat option list \<Rightarrow> rat option" where
  "mathMax xs = (if list_ex (\<lambda>x. x = None) xs then None
                 else Some (foldl max (the (hd xs)) (map the (tl xs))))"

text \<open>The first statement of the repair: the amount from the description.\<close>

definition fixAmount :: "string \<Rightarrow> ExtractedData \<Rightarrow> ExtractedData" where
  "fixAmount desc result =
     (let amountMatch = map whole (matchAll False numberRegExp desc) in
      if amountMatch = [] then result
      else
        let amounts = map (\<lambda>match. parseFloat (replaceFirst match '','' ''.'')) amountMatch;
            maxAmount = mathMax amounts
        in (case maxAmount of
              None \<Rightarrow> result
            | Some x \<Rightarrow> if x > 0 then result\<lparr>amount := Some x\<rparr> else result))"

text \<open>
  The second statement: the provider. \<^verbatim>\<open>providerMatch[1].trim()\<close> throws if group 1
  is \<^verbatim>\<open>undefined\<close>.
\<close>

definition fixProvider :: "string \<Rightarrow> ExtractedData \<Rightarrow> error + ExtractedData" where
  "fixProvider desc result =
     (case matchFirst True providerRegExp desc of
        None \<Rightarrow> Inr result
      | Some providerMatch \<Rightarrow>
          (case grp providerMatch 1 of
             None \<Rightarrow> Inl TypeError
           | Some g1 \<Rightarrow> Inr (result\<lparr>provider := Some (trim g1)\<rparr>)))"

text \<open>
  The third statement: the date. \<^verbatim>\<open>dateStr.split\<close> throws if group 1 is \<^verbatim>\<open>undefined\<close>.
  \<^verbatim>\<open>parts[0]\<close>, \<^verbatim>\<open>parts[1]\<close>, \<^verbatim>\<open>parts[2]\<close> are read under \<^verbatim>\<open>parts.length === 3\<close>.
\<close>

definition fixDate :: "string \<Rightarrow> ExtractedData \<Rightarrow> error + ExtractedData" where
  "fixDate desc result =
     (case matchFirst False (Grp 1 shortDate) desc of
        None \<Rightarrow> Inr result
      | Some dateMatch \<Rightarrow>
          (case grp dateMatch 1 of
             None \<Rightarrow> Inl TypeError
           | Some dateStr \<Rightarrow>
               let parts = splitOn (\<lambda>c. c = CHR ''/'' \<or> c = CHR ''-'') dateStr in
               if length parts = 3
               then
                 (let dayFirst = (case parseInt (Some (parts ! 0)) of
                                    None \<Rightarrow> False | Some n \<Rightarrow> n > 12);
                      day = (if dayFirst then parts ! 0 else parts ! 1);
                      month = (if dayFirst then parts ! 1 else parts ! 0);
                      year = (if length (parts ! 2) = 4 then parts ! 2 else ''20'' @ parts ! 2)
                  in Inr (result\<lparr>date := Some (year @ ''-'' @ padStart0 2 month
                                                 @ ''-'' @ padStart0 2 day)\<rparr>))
               else Inr result))"

text \<open>
  The body of the first \<^verbatim>\<open>if\<close>, for the description \<open>desc\<close> of the result: the three
  repairs read the description, and the last statement shortens it.
\<close>

definition repairFromDescription :: "string \<Rightarrow> ExtractedData \<Rightarrow> error + ExtractedData" where
  "repairFromDescription desc result =
     (case fixProvider desc (fixAmount desc result) of
        Inl e \<Rightarrow> Inl e
      | Inr result1 \<Rightarrow>
          (case fixDate desc result1 of
             Inl e \<Rightarrow> Inl e
           | Inr result2 \<Rightarrow>
               if desc \<noteq> [] \<and> length desc > 100
               then Inr (result2\<lparr>description := Some (substring desc 0 100 @ ''...'')\<rparr>)
               else Inr result2))"

text \<open>
  The body of the second \<^verbatim>\<open>if\<close>, for the description \<open>desc\<close> of the result: amounts,
  dates and the provider are taken out, white space is collapsed, and a description
  that is left empty or shorter than 5 is replaced.
\<close>

definition scrubDescription :: "string \<Rightarrow> ExtractedData \<Rightarrow> ExtractedData outcome" where
  "scrubDescription desc result =
     (let d1 = stripAll False amountShape desc;
          d2 = stripAll False shortDate d1
      in case (if truthyStr (provider result)
               then (case RegExp_new (the (provider result)) of
                       Returns r \<Rightarrow> Returns (stripAll True r d2)
                     | Throws e \<Rightarrow> Throws e
                     | NotModelled \<Rightarrow> NotModelled)
               else Returns d2) of
           Throws e \<Rightarrow> Throws e
         | NotModelled \<Rightarrow> NotModelled
         | Returns d3 \<Rightarrow>
             let d4 = collapseSpaces d3 in
             if d4 = [] \<or> length d4 < 5
             then Returns (result\<lparr>description :=
                      Some (if truthyStr (provider result)
                            then ''Compra en '' @ the (provider result)
                            else ''Compra general'')\<rparr>)
             else Returns (result\<lparr>description := Some d4\<rparr>))"

definition validateAndFixFields :: "ExtractedData \<Rightarrow> ExtractedData outcome" where
  "validateAndFixFields result =
     (case (if truthyStr (description result) \<and> length (the (description result)) > 50
               \<and> \<not> truthyStr (provider result) \<and> \<not> truthyNum (amount result)
            then repairFromDescription (the (description result)) result
            else Inr result) of
        Inl e \<Rightarrow> Throws e
      | Inr result1 \<Rightarrow>
          if truthyStr (description result1)
          then scrubDescription (the (description result1)) result1
          else Returns result1)"


subsection \<open>Example inputs\<close>

text \<open>The receipt line of the end-to-end example.\<close>

definition receiptLine :: string where
  "receiptLine = ''Supermercado ABC S.A. - Total: $150.00 - Fecha: 15/01/2025 - Compra de alimentos''"

text \<open>A line on which every scanner finds its field.\<close>

definition barLine :: string where
  "barLine = ''Bar Inc 2025-01-15 9.50 item: cafes''"

text \<open>Results as the external analysis can return them.\<close>

definition acmeResult :: ExtractedData where
  "acmeResult = \<lparr>description = Some ''abc'', provider = Some ''Acme'', amount = Some 12,
                  currency = Some ''USD'', date = Some ''2025-01-15'',
                  confidence = \<lparr>conf_amount = 0.8, conf_date = 0.8, conf_provider = 0.8,
                                conf_description = 0.8\<rparr>\<rparr>"

definition centroResult :: ExtractedData where
  "centroResult = \<lparr>description = Some ''Compra de pan'', provider = Some ''Acme (Centro'',
                    amount = Some 12, currency = Some ''USD'', date = Some ''2025-01-15'',
                    confidence = \<lparr>conf_amount = 0.8, conf_date = 0.8, conf_provider = 0.8,
                                  conf_description = 0.8\<rparr>\<rparr>"

subsection \<open>Predicates of the proofs\<close>

text \<open>
  \<open>mustSet n r\<close>: on every path through the pattern \<open>r\<close> the group \<open>n\<close> is closed after
  the last place that could clear it, so that \<^verbatim>\<open>match[n]\<close> is defined after a match.
\<close>

fun mustSet :: "nat \<Rightarrow> regex \<Rightarrow> bool" where
  "mustSet n (Grp k r) = (k = n \<or> mustSet n r)"
| "mustSet n (Seq a b) = (mustSet n b \<or> (mustSet n a \<and> n \<notin> set (groups b)))"
| "mustSet n (Alt a b) = (mustSet n a \<and> mustSet n b)"
| "mustSet n r = False"


text \<open>What every amount candidate satisfies, and every best provider so far.\<close>

definition goodCandidate :: "candidate \<Rightarrow> bool" where
  "goodCandidate c = (c_amount c > 0 \<and> c_currency c \<noteq> [] \<and> c_confidence c \<le> 1)"


definition goodBest :: "(string \<times> rat) option \<Rightarrow> bool" where
  "goodBest b = (case b of None \<Rightarrow> True | Some (p, c) \<Rightarrow> 3 \<le> length p \<and> 0 < c)"


section \<open>Evaluation\<close>

text \<open>The equations by which the simplifier runs the model on a concrete text.\<close>

lemmas char_eval = cu_def isDigit_def isAsciiUpper_def isAsciiLower_def isWordChar_def isSpace_def
  isLineTerminator_def hasLower_def hasUpper_def toLowerChar_def toLowerCase_def toUpperChar_def
  toUpperCase_def canonicalize_def isHexDigit_def hexVal_def digitVal_def digitsVal_def
  digitChar_def isDotComma_def

lemmas string_eval = trim_def substring_def padStart0_def removeFirst_def truthyStr_def
  truthyNum_def parseUnsigned_def parseIntRadix_def parseInt_def parseInt10_def parseDecimal_def
  parseFloat_def showNat.simps showInt_def orStr_def esc_def Let_def

lemmas regex_eval = Star_def Plus_def Opt_def Times_def Between_def Lit_def inClass_def
  startState_def advance_def step_def atWordBoundary_def clearCaps_def setCap_def decr_def
  matcher.simps grp_def mkMatch_def matchesFrom.simps matchAll_def matchFirst_def test_def
  replaceAll_def stripAll_def

lemmas amount_eval = symUnits_def symClass_def digit09_def dotComma_def grouped_def decimal2_def
  ws_def numSrc_def symSrc_def AMOUNT_PATTERNS_def CURRENCY_SYMBOLS_def currencyRegExp_def
  normalizeAmount_def symbolFirstNeedle_def amountFirstNeedle_def amountAndCurrency_def
  adjustConfidence_def amountCandidate_def patternCandidates_def amountCandidates_def
  compareCandidates_def sortBy_def extractAmount_def map_filter_simps

lemmas provider_eval = upperAZ_def lowerAZ_def nameChar_def providerPatterns_def
  providerSkipWords_def collapseSpaces_def providerStep_def extractProvider_def

lemmas description_eval = textItems_def letterAZaz_def descriptionPatterns_def
  descriptionSkipWords_def properNameRegExp_def descriptionCandidate_def
  descriptionCandidates_def descriptionStep_def extractDescription_def

lemmas validate_eval = isSyntaxCharacter_def RegExp_new_def numberRegExp_def providerRegExp_def
  shortDate_def amountShape_def mathMax_def fixAmount_def fixProvider_def fixDate_def
  repairFromDescription_def scrubDescription_def validateAndFixFields_def

lemmas date_eval = digitD_def slashDash_def monthAlternatives_def DATE_PATTERNS_def
  MONTH_NAMES_en_def MONTH_NAMES_es_def findMonthIndex_def isLeapYear_def daysInMonth_def
  isValidDate_def dateOfMatch_def extractDate_def

section \<open>Captures, sorting and steps that do not throw\<close>

lemma step_caps: "st' \<in> set (step p st) \<Longrightarrow> caps st' = caps st"
  by (auto simp: step_def advance_def split: list.splits if_splits)

lemmas matcher_basic = matcher.simps(1-11)

lemma matcher_Rep_cases:
  assumes "st' \<in> set (matcher ic (Rep lo hi r) st)"
  obtains (zero) "hi = Some 0" "st' = st"
    | (iter) st1 where "hi \<noteq> Some 0" "st1 \<in> set (matcher ic r (clearCaps (groups r) st))"
          "\<not> (lo = 0 \<and> left st \<le> left st1)" "st' \<in> set (matcher ic (Rep (lo - 1) (decr hi) r) st1)"
    | (stop) "hi \<noteq> Some 0" "lo = 0" "st' = st"
proof (cases "hi = Some 0")
  case True
  with assms have "st' = st" by (subst (asm) matcher.simps(12)) simp
  with True show ?thesis by (rule zero)
next
  case False
  from assms False have
    "(\<exists>st1 \<in> set (matcher ic r (clearCaps (groups r) st)).
        \<not> (lo = 0 \<and> left st \<le> left st1) \<and> st' \<in> set (matcher ic (Rep (lo - 1) (decr hi) r) st1))
     \<or> (lo = 0 \<and> st' = st)"
    by (subst (asm) matcher.simps(12)) (auto split: if_splits)
  then show ?thesis
  proof
    assume "\<exists>st1 \<in> set (matcher ic r (clearCaps (groups r) st)).
        \<not> (lo = 0 \<and> left st \<le> left st1) \<and> st' \<in> set (matcher ic (Rep (lo - 1) (decr hi) r) st1)"
    then obtain st1 where 1: "st1 \<in> set (matcher ic r (clearCaps (groups r) st))"
      and 3: "\<not> (lo = 0 \<and> left st \<le> left st1)"
      and 4: "st' \<in> set (matcher ic (Rep (lo - 1) (decr hi) r) st1)"
      by blast
    from False 1 3 4 show ?thesis by (rule iter)
  next
    assume "lo = 0 \<and> st' = st"
    with False show ?thesis by (auto intro: stop)
  qed
qed

lemma clearCaps_other: "n \<notin> set ns \<Longrightarrow> map_of (caps (clearCaps ns st)) n = map_of (caps st) n"
proof -
  have "map_of (filter (\<lambda>(k, s). k \<notin> set ns) xs) n = map_of xs n" if "n \<notin> set ns" for xs :: "(nat \<times> string) list"
    using that by (induction xs) auto
  then show "n \<notin> set ns \<Longrightarrow> ?thesis" by (simp add: clearCaps_def)
qed

lemma matcher_caps_other:
  "st' \<in> set (matcher ic r st) \<Longrightarrow> n \<notin> set (groups r) \<Longrightarrow> map_of (caps st') n = map_of (caps st) n"
proof (induction ic r st arbitrary: st' rule: matcher.induct)
  case (6 ic a b st)
  from "6.prems"(1) obtain st1 where a: "st1 \<in> set (matcher ic a st)" and b: "st' \<in> set (matcher ic b st1)"
    by (auto simp: matcher_basic)
  from "6.prems"(2) have na: "n \<notin> set (groups a)" and nb: "n \<notin> set (groups b)" by auto
  from "6.IH"(1)[OF a na] "6.IH"(2)[OF a b nb] show ?case by simp
next
  case (7 ic a b st)
  then show ?case by (auto simp: matcher_basic)
next
  case (8 ic k r st)
  then show ?case by (auto simp: matcher_basic setCap_def)
next
  case (12 ic lo hi r st)
  from "12.prems"(2) have nr: "n \<notin> set (groups r)" by simp
  from "12.prems"(1) show ?case
  proof (cases rule: matcher_Rep_cases)
    case (iter st1)
    have "map_of (caps st1) n = map_of (caps (clearCaps (groups r) st)) n"
      using "12.IH"(1)[OF iter(1) iter(2) nr] .
    moreover have "map_of (caps st') n = map_of (caps st1) n"
      using "12.IH"(2)[OF iter(1) iter(2) iter(3) iter(4)] "12.prems"(2) by simp
    ultimately show ?thesis using clearCaps_other[OF nr] by simp
  qed simp_all
qed (auto simp: matcher_basic step_caps split: if_splits)

lemma matcher_caps_set:
  "st' \<in> set (matcher ic r st) \<Longrightarrow> mustSet n r \<Longrightarrow> map_of (caps st') n \<noteq> None"
proof (induction ic r st arbitrary: st' rule: matcher.induct)
  case (6 ic a b st)
  from "6.prems"(1) obtain st1 where a: "st1 \<in> set (matcher ic a st)" and b: "st' \<in> set (matcher ic b st1)"
    by (auto simp: matcher_basic)
  from "6.prems"(2) consider "mustSet n b" | "mustSet n a" "n \<notin> set (groups b)" by auto
  then show ?case
  proof cases
    case 1
    from "6.IH"(2)[OF a b 1] show ?thesis .
  next
    case 2
    from "6.IH"(1)[OF a 2(1)] matcher_caps_other[OF b 2(2)] show ?thesis by simp
  qed
next
  case (7 ic a b st)
  then show ?case by (auto simp: matcher_basic)
next
  case (8 ic k r st)
  from "8.prems"(1) obtain st1 where 1: "st1 \<in> set (matcher ic r st)" and 2: "st' = setCap k st st1"
    by (auto simp: matcher_basic)
  show ?case
  proof (cases "k = n")
    case True
    with 2 show ?thesis by (simp add: setCap_def)
  next
    case False
    with "8.prems"(2) have "mustSet n r" by simp
    from "8.IH"[OF 1 this] 2 False show ?thesis by (simp add: setCap_def)
  qed
qed simp_all

lemma execFrom_hit:
  "execFrom ic r k st = Some (m, st1) \<Longrightarrow>
   \<exists>st0. st1 \<in> set (matcher ic r (st0\<lparr>caps := []\<rparr>)) \<and> m = mkMatch st0 st1"
proof (induction k arbitrary: st)
  case 0
  then show ?case by (auto split: list.splits) (metis list.set_intros(1))
next
  case (Suc k)
  show ?case
  proof (cases "matcher ic r (st\<lparr>caps := []\<rparr>)")
    case Nil
    with Suc.prems have "execFrom ic r k (advance st) = Some (m, st1)" by simp
    from Suc.IH[OF this] show ?thesis .
  next
    case (Cons a as)
    with Suc.prems have "a = st1" "m = mkMatch st st1" by auto
    with Cons show ?thesis by (metis list.set_intros(1))
  qed
qed

lemma execFrom_grp:
  "execFrom ic r k st = Some (m, st1) \<Longrightarrow> mustSet n r \<Longrightarrow> grp m n \<noteq> None"
  by (auto dest!: execFrom_hit simp: grp_def mkMatch_def dest: matcher_caps_set)

lemma matchesFrom_grp:
  "m \<in> set (matchesFrom ic r st) \<Longrightarrow> mustSet n r \<Longrightarrow> grp m n \<noteq> None"
proof (induction ic r st rule: matchesFrom.induct)
  case (1 ic r st)
  show ?case
  proof (cases "execFrom ic r (left st) st")
    case None
    with "1.prems" show ?thesis by (subst (asm) matchesFrom.simps) simp
  next
    case (Some p)
    obtain m1 st1 where p: "p = (m1, st1)" by (cases p)
    from "1.prems"(1) Some p consider "m = m1"
      | "whole m1 = []" "left (advance st1) < left st" "m \<in> set (matchesFrom ic r (advance st1))"
      | "whole m1 \<noteq> []" "left st1 < left st" "m \<in> set (matchesFrom ic r st1)"
      by (subst (asm) matchesFrom.simps) (auto split: if_splits)
    then show ?thesis
    proof cases
      case 1
      with execFrom_grp Some p "1.prems"(2) show ?thesis by blast
    next
      case 2
      from "1.IH"(1)[OF Some p[symmetric] 2(1) 2(2) 2(3) "1.prems"(2)] show ?thesis .
    next
      case 3
      from "1.IH"(2)[OF Some p[symmetric] 3(1) 3(2) 3(3) "1.prems"(2)] show ?thesis .
    qed
  qed
qed

lemma matchAll_grp: "m \<in> set (matchAll ic r s) \<Longrightarrow> mustSet n r \<Longrightarrow> grp m n \<noteq> None"
  unfolding matchAll_def by (rule matchesFrom_grp)

lemma matchFirst_grp: "matchFirst ic r s = Some m \<Longrightarrow> mustSet n r \<Longrightarrow> grp m n \<noteq> None"
  unfolding matchFirst_def by (auto dest: execFrom_grp)

subsection \<open>Sorting\<close>

lemma set_insertBy: "set (insertBy cmp x ys) = insert x (set ys)"
  by (induction ys) auto

lemma set_foldl_insertBy: "set (foldl (\<lambda>acc x. insertBy cmp x acc) acc xs) = set acc \<union> set xs"
  by (induction xs arbitrary: acc) (auto simp: set_insertBy)

lemma set_sortBy: "set (sortBy cmp xs) = set xs"
  by (simp add: sortBy_def set_foldl_insertBy)

lemma sortBy_Nil_iff: "sortBy cmp xs = [] \<longleftrightarrow> xs = []"
  using set_sortBy[of cmp xs] by (metis set_empty)

subsection \<open>Steps that do not throw\<close>

lemma mapE_Inr:
  "(\<And>x. x \<in> set xs \<Longrightarrow> \<exists>y. f x = Inr y \<and> P y) \<Longrightarrow> \<exists>ys. mapE f xs = Inr ys \<and> (\<forall>y\<in>set ys. P y)"
proof (induction xs)
  case Nil
  then show ?case by simp
next
  case (Cons x xs)
  from Cons.prems[of x] obtain y where y: "f x = Inr y" "P y" by auto
  from Cons.IH Cons.prems obtain ys where ys: "mapE f xs = Inr ys" "\<forall>y\<in>set ys. P y" by auto
  from y ys show ?case by simp
qed

lemma foldE_Inr:
  "I s \<Longrightarrow> (\<And>s x. I s \<Longrightarrow> x \<in> set xs \<Longrightarrow> \<exists>s'. f s x = Inr s' \<and> I s') \<Longrightarrow> \<exists>s'. foldE f s xs = Inr s' \<and> I s'"
proof (induction xs arbitrary: s)
  case Nil
  then show ?case by simp
next
  case (Cons x xs)
  from Cons.prems(2)[OF Cons.prems(1), of x] obtain s1 where s1: "f s x = Inr s1" "I s1" by auto
  have "\<exists>s'. foldE f s1 xs = Inr s' \<and> I s'"
    by (rule Cons.IH[OF s1(2)]) (use Cons.prems(2) in auto)
  with s1 show ?case by simp
qed

subsection \<open>The amount scanner\<close>

lemma mustSet_currencyRegExp: "mustSet 1 currencyRegExp"
  by (simp add: currencyRegExp_def)

lemma amountAndCurrency_Inr: "\<exists>p. amountAndCurrency cfg m = Inr p"
  by (auto simp: amountAndCurrency_def Let_def split: option.splits
      dest: matchFirst_grp[OF _ mustSet_currencyRegExp])

lemma amountCandidate_Inr:
  "\<exists>c. amountCandidate text cfg m = Inr c \<and> (case c of None \<Rightarrow> True | Some c' \<Rightarrow> goodCandidate c')"
proof -
  obtain p where p: "amountAndCurrency cfg m = Inr p" using amountAndCurrency_Inr by blast
  obtain a c where "p = (a, c)" by (cases p)
  with p show ?thesis
    by (auto simp: amountCandidate_def Let_def goodCandidate_def split: option.splits)
qed

lemma patternCandidates_Inr:
  "\<exists>cs. patternCandidates text cfg = Inr cs \<and> (\<forall>c\<in>set cs. goodCandidate c)"
proof -
  from mapE_Inr[of _ "amountCandidate text cfg" "\<lambda>c. case c of None \<Rightarrow> True | Some c' \<Rightarrow> goodCandidate c'",
      OF amountCandidate_Inr]
  obtain ys where ys: "mapE (amountCandidate text cfg)
       (matchAll (icase (pc_pattern cfg)) (re (pc_pattern cfg)) text) = Inr ys"
     "\<forall>y\<in>set ys. case y of None \<Rightarrow> True | Some c' \<Rightarrow> goodCandidate c'" by blast
  have "\<forall>c\<in>set (List.map_filter id ys). goodCandidate c"
    using ys(2) by (auto simp: List.map_filter_def)
  with ys(1) show ?thesis by (simp add: patternCandidates_def)
qed

lemma amountCandidates_Inr:
  "\<exists>cs. amountCandidates text = Inr cs \<and> (\<forall>c\<in>set cs. goodCandidate c)"
proof -
  from mapE_Inr[of AMOUNT_PATTERNS "patternCandidates text" "\<lambda>cs. \<forall>c\<in>set cs. goodCandidate c",
      OF patternCandidates_Inr]
  obtain css where "mapE (patternCandidates text) AMOUNT_PATTERNS = Inr css"
     "\<forall>cs\<in>set css. \<forall>c\<in>set cs. goodCandidate c" by blast
  then show ?thesis by (auto simp: amountCandidates_def)
qed

lemma extractAmount_cases:
  obtains (none) "amountCandidates text = Inr []"
      "extractAmount text = Inr \<lparr>a_amount = None, a_currency = None, a_confidence = 0\<rparr>"
  | (some) cs c where "amountCandidates text = Inr cs" "c \<in> set cs" "goodCandidate c"
      "extractAmount text = Inr \<lparr>a_amount = Some (c_amount c), a_currency = Some (c_currency c),
                                 a_confidence = c_confidence c\<rparr>"
proof -
  obtain cs where cs: "amountCandidates text = Inr cs" "\<forall>c\<in>set cs. goodCandidate c"
    using amountCandidates_Inr by blast
  show ?thesis
  proof (cases cs)
    case Nil
    with cs show ?thesis by (auto intro!: none simp: extractAmount_def)
  next
    case (Cons x xs)
    then have "sortBy compareCandidates cs \<noteq> []" by (simp add: sortBy_Nil_iff)
    then obtain b bs where b: "sortBy compareCandidates cs = b # bs" by (cases "sortBy compareCandidates cs") auto
    then have "b \<in> set cs" using set_sortBy[of compareCandidates cs] by auto
    with cs b Cons show ?thesis by (auto intro!: some[of cs b] simp: extractAmount_def)
  qed
qed

subsection \<open>The provider scanner\<close>

lemma mustSet_providerPatterns_all: "list_all (\<lambda>rule. mustSet 1 (r_re rule)) providerPatterns"
  by (simp add: providerPatterns_def ws_def Star_def Opt_def Lit_def)

lemma mustSet_providerPatterns: "rule \<in> set providerPatterns \<Longrightarrow> mustSet 1 (r_re rule)"
  using mustSet_providerPatterns_all by (simp add: list_all_iff)

lemma providerStep_Inr:
  assumes "grp m 1 \<noteq> None" "goodBest b"
  shows "\<exists>b'. providerStep c b m = Inr b' \<and> goodBest b'"
proof -
  from assms(1) obtain g where g: "grp m 1 = Some g" by auto
  define p where "p = collapseSpaces (trim g)"
  have pos: "0 < c" if "(case b of None \<Rightarrow> 0 | Some b \<Rightarrow> snd b) < c"
    using that assms(2) by (cases b) (auto simp: goodBest_def)
  have ite4: "(if A then Inr b else if B then Inr b else if C then Inr b
               else if D then Inr (Some (p, c)) else Inr b) = Inr b
              \<or> ((if A then Inr b else if B then Inr b else if C then Inr b
                   else if D then Inr (Some (p, c)) else Inr b) = (Inr (Some (p, c)) :: error + (string \<times> rat) option)
                  \<and> 3 \<le> length p \<and> 0 < c)"
    if "D \<Longrightarrow> 0 < c" "\<not> A \<Longrightarrow> 3 \<le> length p" for A B C D
    using that by auto
  have "providerStep c b m = Inr b \<or> (providerStep c b m = Inr (Some (p, c)) \<and> 3 \<le> length p \<and> 0 < c)"
    unfolding providerStep_def g p_def[symmetric] option.case Let_def
    by (rule ite4) (use pos in auto)
  with assms(2) show ?thesis by (auto simp: goodBest_def)
qed

lemma extractProvider_cases:
  obtains (none) "extractProvider text = Inr \<lparr>p_provider = None, p_confidence = 0\<rparr>"
  | (some) p c where "extractProvider text = Inr \<lparr>p_provider = Some p, p_confidence = c\<rparr>"
      "3 \<le> length p" "0 < c"
proof -
  have inner: "\<exists>b'. foldE (providerStep (r_confidence rule)) b
                       (matchAll (r_icase rule) (r_re rule) text) = Inr b' \<and> goodBest b'"
    if "goodBest b" "rule \<in> set providerPatterns" for b rule
    by (rule foldE_Inr[of goodBest, OF that(1)])
       (auto intro!: providerStep_Inr dest: matchAll_grp[OF _ mustSet_providerPatterns[OF that(2)]])
  have "goodBest None" by (simp add: goodBest_def)
  from foldE_Inr[of goodBest None providerPatterns
      "\<lambda>bestMatch rule. foldE (providerStep (r_confidence rule)) bestMatch
                      (matchAll (r_icase rule) (r_re rule) text)", OF this inner]
  obtain b where b: "foldE (\<lambda>bestMatch rule. foldE (providerStep (r_confidence rule)) bestMatch
                      (matchAll (r_icase rule) (r_re rule) text)) None providerPatterns = Inr b"
      "goodBest b" by blast
  show ?thesis
  proof (cases b)
    case None
    with b show ?thesis by (auto intro!: none simp: extractProvider_def)
  next
    case (Some pc)
    obtain p c where "pc = (p, c)" by (cases pc)
    with Some b show ?thesis by (auto intro!: some[of p c] simp: extractProvider_def goodBest_def)
  qed
qed

subsection \<open>The date scanner\<close>

lemma firstSome_Some: "firstSome f xs = Some y \<Longrightarrow> \<exists>x\<in>set xs. f x = Some y"
  by (induction xs) (auto split: option.splits)

lemma dateOfMatch_nonempty: "dateOfMatch pattern m = Some s \<Longrightarrow> s \<noteq> []"
  by (auto simp: dateOfMatch_def Let_def split: option.splits if_splits prod.splits)

lemma extractDate_cases:
  obtains (none) "extractDate text = \<lparr>d_date = None, d_confidence = 0\<rparr>"
  | (some) s where "extractDate text = \<lparr>d_date = Some s, d_confidence = 0.9\<rparr>" "s \<noteq> []"
proof (cases "firstSome (\<lambda>pattern. firstSome (dateOfMatch pattern)
                                   (matchAll (icase pattern) (re pattern) text)) DATE_PATTERNS")
  case None
  then show ?thesis by (auto intro!: none simp: extractDate_def)
next
  case (Some s)
  from firstSome_Some[OF Some] obtain pattern where
    "firstSome (dateOfMatch pattern) (matchAll (icase pattern) (re pattern) text) = Some s" by blast
  from firstSome_Some[OF this] obtain m where "dateOfMatch pattern m = Some s" by blast
  then have "s \<noteq> []" by (rule dateOfMatch_nonempty)
  with Some show ?thesis by (auto intro!: some[of s] simp: extractDate_def)
qed

subsection \<open>The description scanner\<close>

lemma extractDescription_Some: "ds_description (extractDescription text prov) \<noteq> None"
  by (auto simp: extractDescription_def truthyStr_def split: prod.splits option.splits)

lemma extractDescription_fallback:
  "descriptionCandidates text prov = [] \<Longrightarrow>
   extractDescription text prov =
     (if truthyStr prov
      then \<lparr>ds_description = Some (''Compra en '' @ the prov), ds_confidence = 0.5\<rparr>
      else \<lparr>ds_description = Some ''Gasto registrado'', ds_confidence = 0.3\<rparr>)"
  by (simp add: extractDescription_def truthyStr_def)

section \<open>The number normalizer\<close>

text \<open>
  C4. The three separator conventions give the decimal value that the text denotes:
  \<^verbatim>\<open>123.45\<close>, \<^verbatim>\<open>1,234.56\<close> and \<^verbatim>\<open>1.234,56\<close>. A last segment of at most two characters is
  the fraction; a longer last segment is a thousands group, as in \<^verbatim>\<open>1.234\<close> and
  \<^verbatim>\<open>1,234,567\<close>.
\<close>

theorem normalizeAmount_separators:
  "normalizeAmount ''123.45'' = Some 123.45
   \<and> normalizeAmount ''1,234.56'' = Some 1234.56
   \<and> normalizeAmount ''1.234,56'' = Some 1234.56
   \<and> normalizeAmount ''1.234'' = Some 1234
   \<and> normalizeAmount ''1,234,567'' = Some 1234567"
  by (simp add: char_eval string_eval regex_eval amount_eval)

section \<open>The date scanner\<close>

text \<open>
  C2. On \<^verbatim>\<open>15/01/2025\<close> and on \<^verbatim>\<open>01/15/2025\<close> the scanner finds no date. The source of
  every date pattern contains the text \<^verbatim>\<open>\d{4}\<close>, so every match is read as year, month,
  day in this order, and \<open>15\<close> or \<open>1\<close> is not a year between 1900 and 2100. The same
  day written year first is found.
\<close>

theorem extractDate_day_month_year:
  "extractDate ''15/01/2025'' = \<lparr>d_date = None, d_confidence = 0\<rparr>
   \<and> extractDate ''01/15/2025'' = \<lparr>d_date = None, d_confidence = 0\<rparr>
   \<and> extractDate ''2025-01-15'' = \<lparr>d_date = Some ''2025-01-15'', d_confidence = 0.9\<rparr>"
  by (simp add: char_eval string_eval regex_eval date_eval)

section \<open>The amount scanner\<close>

text \<open>
  C3. On \<^verbatim>\<open>Total: $1.234,56\<close> the scanner returns the amount 4.56 with the currency
  \<^verbatim>\<open>4,56\<close> and confidence 1, not 1234.56 and \<^verbatim>\<open>$\<close>.
\<close>

theorem extractAmount_total_example:
  "extractAmount ''Total: $1.234,56''
   = Inr \<lparr>a_amount = Some 4.56, a_currency = Some ''4,56'', a_confidence = 1\<rparr>"
  by (simp add: char_eval string_eval regex_eval amount_eval)

section \<open>The description scanner never returns an absent description\<close>

text \<open>
  C8. For every text and every provider, \<^verbatim>\<open>extractDescription\<close> returns a description
  that is not \<^verbatim>\<open>null\<close>. When no match passes the filters, it returns
  \<^verbatim>\<open>Compra en {provider}\<close> with confidence 0.5 if the provider is a non-empty string, and
  \<^verbatim>\<open>Gasto registrado\<close> with confidence 0.3 otherwise.
\<close>

theorem extractDescription_never_absent:
  "ds_description (extractDescription text prov) \<noteq> None
   \<and> (descriptionCandidates text prov = [] \<longrightarrow>
        extractDescription text prov =
          (if truthyStr prov
           then \<lparr>ds_description = Some (''Compra en '' @ the prov), ds_confidence = 0.5\<rparr>
           else \<lparr>ds_description = Some ''Gasto registrado'', ds_confidence = 0.3\<rparr>))"
  using extractDescription_Some extractDescription_fallback by blast

lemma descriptionCandidates_hola:
  "descriptionCandidates ''hola'' (Some ''Acme'') = [] \<and> descriptionCandidates ''hola'' None = []"
  by (simp add: char_eval string_eval regex_eval description_eval amount_eval date_eval)

theorem extractDescription_never_absent_witness:
  "extractDescription ''hola'' (Some ''Acme'')
     = \<lparr>ds_description = Some ''Compra en Acme'', ds_confidence = 0.5\<rparr>
   \<and> extractDescription ''hola'' None
     = \<lparr>ds_description = Some ''Gasto registrado'', ds_confidence = 0.3\<rparr>"
  using extractDescription_never_absent[of "''hola''" "Some ''Acme''"]
    extractDescription_never_absent[of "''hola''" None] descriptionCandidates_hola
  by (simp add: truthyStr_def)

section \<open>Currency and amount are present together\<close>


lemma heuristicExtraction_hola:
  "heuristicExtraction ''hola''
   = Inr \<lparr>data = \<lparr>description = Some ''Gasto registrado'', provider = None, amount = None,
                   currency = None, date = None,
                   confidence = \<lparr>conf_amount = 0, conf_date = 0, conf_provider = 0,
                                 conf_description = 0.3\<rparr>\<rparr>,
          shouldUseLLM = True, overallConfidence = 0.03\<rparr>"
  by (simp add: char_eval string_eval regex_eval amount_eval date_eval provider_eval
      description_eval heuristicExtraction_def weightedConfidence_def)

lemma extractAmount_barLine:
  "extractAmount barLine = Inr \<lparr>a_amount = Some 9.5, a_currency = Some ''9.50'', a_confidence = 0.9\<rparr>"
  by (simp add: barLine_def char_eval string_eval regex_eval amount_eval)

lemma extractDate_barLine:
  "extractDate barLine = \<lparr>d_date = Some ''2025-01-15'', d_confidence = 0.9\<rparr>"
  by (simp add: barLine_def char_eval string_eval regex_eval date_eval)

lemma extractProvider_barLine:
  "extractProvider barLine = Inr \<lparr>p_provider = Some ''Bar Inc'', p_confidence = 0.9\<rparr>"
  by (simp add: barLine_def char_eval string_eval regex_eval provider_eval amount_eval date_eval)

lemma extractDescription_barLine:
  "extractDescription barLine (Some ''Bar Inc'')
   = \<lparr>ds_description = Some ''cafes'', ds_confidence = 0.9\<rparr>"
  by (simp add: barLine_def char_eval string_eval regex_eval description_eval provider_eval
      amount_eval date_eval)

lemma heuristicExtraction_barLine:
  "heuristicExtraction barLine
   = Inr \<lparr>data = \<lparr>description = Some ''cafes'', provider = Some ''Bar Inc'', amount = Some 9.5,
                   currency = Some ''9.50'', date = Some ''2025-01-15'',
                   confidence = \<lparr>conf_amount = 0.9, conf_date = 0.9, conf_provider = 0.9,
                                 conf_description = 0.9\<rparr>\<rparr>,
          shouldUseLLM = False, overallConfidence = 0.9\<rparr>"
  by (simp add: heuristicExtraction_def extractAmount_barLine extractDate_barLine
      extractProvider_barLine extractDescription_barLine weightedConfidence_def
      truthyNum_def truthyStr_def)


section \<open>The escalation decision\<close>

text \<open>
  C5. For every text, \<^verbatim>\<open>heuristicExtraction\<close> returns a result whose overall confidence
  is the sum of the four confidences with the weights 0.4 (amount), 0.3 (date),
  0.2 (provider) and 0.1 (description), and whose flag \<^verbatim>\<open>shouldUseLLM\<close> is set exactly
  when this sum is below 0.6, or the amount is absent, or date and provider are both
  absent. So it is set whenever the amount is absent, and it is not set when the four
  fields are present with confidences of at least 0.8.
\<close>

theorem shouldUseLLM_iff:
  "\<exists>r. heuristicExtraction text = Inr r
     \<and> overallConfidence r
         = conf_amount (confidence (data r)) * 0.4 + conf_date (confidence (data r)) * 0.3
           + conf_provider (confidence (data r)) * 0.2
           + conf_description (confidence (data r)) * 0.1
     \<and> (shouldUseLLM r \<longleftrightarrow>
          (overallConfidence r < 0.6 \<or> amount (data r) = None
           \<or> (date (data r) = None \<and> provider (data r) = None)))
     \<and> (amount (data r) = None \<longrightarrow> shouldUseLLM r)
     \<and> (amount (data r) \<noteq> None \<and> date (data r) \<noteq> None \<and> provider (data r) \<noteq> None
          \<and> description (data r) \<noteq> None
          \<and> 0.8 \<le> conf_amount (confidence (data r)) \<and> 0.8 \<le> conf_date (confidence (data r))
          \<and> 0.8 \<le> conf_provider (confidence (data r))
          \<and> 0.8 \<le> conf_description (confidence (data r))
          \<longrightarrow> \<not> shouldUseLLM r)"
proof -
  obtain a where a: "extractAmount text = Inr a" "truthyNum (a_amount a) \<longleftrightarrow> a_amount a \<noteq> None"
    by (cases "text" rule: extractAmount_cases) (auto simp: truthyNum_def goodCandidate_def)
  have "\<exists>p. extractProvider text = Inr p \<and> (truthyStr (p_provider p) \<longleftrightarrow> p_provider p \<noteq> None)"
  proof (cases "text" rule: extractProvider_cases)
    case none
    then show ?thesis by (simp add: truthyStr_def)
  next
    case (some q c)
    from some(2) have "q \<noteq> []" by auto
    with some(1) show ?thesis by (simp add: truthyStr_def)
  qed
  then obtain p where p: "extractProvider text = Inr p"
      "truthyStr (p_provider p) \<longleftrightarrow> p_provider p \<noteq> None"
    by blast
  have d: "truthyStr (d_date (extractDate text)) \<longleftrightarrow> d_date (extractDate text) \<noteq> None"
    by (cases "text" rule: extractDate_cases) (auto simp: truthyStr_def)
  define r where "r = (case heuristicExtraction text of Inr r \<Rightarrow> r)"
  have r: "heuristicExtraction text = Inr r"
    using a(1) p(1) by (simp add: r_def heuristicExtraction_def Let_def)
  have fields: "amount (data r) = a_amount a" "date (data r) = d_date (extractDate text)"
      "provider (data r) = p_provider p"
    using a(1) p(1) by (simp_all add: r_def heuristicExtraction_def Let_def)
  have w: "overallConfidence r = weightedConfidence (confidence (data r))"
    using a(1) p(1) by (simp add: r_def heuristicExtraction_def Let_def)
  have flag: "shouldUseLLM r \<longleftrightarrow>
      (overallConfidence r < 0.6 \<or> amount (data r) = None
       \<or> (date (data r) = None \<and> provider (data r) = None))"
    using a p d by (auto simp add: r_def heuristicExtraction_def Let_def)
  have high: "\<not> overallConfidence r < 0.6"
    if "0.8 \<le> conf_amount (confidence (data r))" "0.8 \<le> conf_date (confidence (data r))"
       "0.8 \<le> conf_provider (confidence (data r))" "0.8 \<le> conf_description (confidence (data r))"
    using that unfolding w weightedConfidence_def by simp
  from r w flag high show ?thesis
    unfolding weightedConfidence_def by (intro exI[of _ r]) auto
qed

theorem shouldUseLLM_iff_witness:
  "(\<exists>r. heuristicExtraction ''hola'' = Inr r \<and> amount (data r) = None \<and> shouldUseLLM r)
   \<and> (\<exists>r. heuristicExtraction barLine = Inr r \<and> \<not> shouldUseLLM r \<and> overallConfidence r = 0.9)"
  using shouldUseLLM_iff[of "''hola''"] shouldUseLLM_iff[of barLine]
    heuristicExtraction_hola heuristicExtraction_barLine
  by simp

section \<open>The end-to-end example\<close>

lemma extractAmount_receiptLine:
  "extractAmount receiptLine
   = Inr \<lparr>a_amount = Some 150, a_currency = Some ''150.00'', a_confidence = 1\<rparr>"
  by (simp add: receiptLine_def char_eval string_eval regex_eval amount_eval)

lemma extractDate_receiptLine:
  "extractDate receiptLine = \<lparr>d_date = None, d_confidence = 0\<rparr>"
  by (simp add: receiptLine_def char_eval string_eval regex_eval date_eval)

lemma extractProvider_receiptLine:
  "extractProvider receiptLine = Inr \<lparr>p_provider = None, p_confidence = 0\<rparr>"
  by (simp add: receiptLine_def char_eval string_eval regex_eval provider_eval amount_eval
      date_eval)

lemma extractDescription_receiptLine:
  "extractDescription receiptLine None
   = \<lparr>ds_description = Some ''Compra de alimentos'', ds_confidence = 0.7\<rparr>"
  by (simp add: receiptLine_def char_eval string_eval regex_eval description_eval provider_eval
      amount_eval date_eval)

text \<open>
  C1. On the receipt line of the example, \<^verbatim>\<open>heuristicExtraction\<close> returns the amount 150
  and the description \<^verbatim>\<open>Compra de alimentos\<close>, but no provider, no date, the currency
  \<^verbatim>\<open>150.00\<close>, and the flag \<^verbatim>\<open>shouldUseLLM\<close> set.
\<close>

theorem heuristicExtraction_receiptLine:
  "heuristicExtraction receiptLine
   = Inr \<lparr>data = \<lparr>description = Some ''Compra de alimentos'', provider = None,
                   amount = Some 150, currency = Some ''150.00'', date = None,
                   confidence = \<lparr>conf_amount = 1, conf_date = 0, conf_provider = 0,
                                 conf_description = 0.7\<rparr>\<rparr>,
          shouldUseLLM = True, overallConfidence = 0.47\<rparr>"
  by (simp add: heuristicExtraction_def extractAmount_receiptLine extractDate_receiptLine
      extractProvider_receiptLine extractDescription_receiptLine weightedConfidence_def
      truthyNum_def truthyStr_def)

theorem heuristicExtraction_receiptLine_witness:
  "\<exists>r. heuristicExtraction
          ''Supermercado ABC S.A. - Total: $150.00 - Fecha: 15/01/2025 - Compra de alimentos''
        = Inr r
      \<and> provider (data r) = None \<and> amount (data r) = Some 150
      \<and> currency (data r) = Some ''150.00'' \<and> date (data r) = None
      \<and> description (data r) = Some ''Compra de alimentos'' \<and> shouldUseLLM r"
  using heuristicExtraction_receiptLine by (simp add: receiptLine_def)

section \<open>The repair pass\<close>

text \<open>
  C9. The repair pass throws on a result whose provider is not a well-formed pattern:
  with the provider \<^verbatim>\<open>Acme (Centro\<close> and a description, \<^verbatim>\<open>new RegExp(result.provider, 'gi')\<close>
  raises a \<^verbatim>\<open>SyntaxError\<close>.
\<close>

theorem validateAndFixFields_throws:
  "validateAndFixFields centroResult = Throws SyntaxError"
  by (simp add: centroResult_def char_eval string_eval regex_eval validate_eval amount_eval
      date_eval provider_eval)

text \<open>
  C6, as stated, fails: the repaired result \<^verbatim>\<open>Compra en Acme\<close> of a short description
  is changed again by a second pass, which takes the provider out of it.
\<close>

theorem validateAndFixFields_not_idempotent:
  "validateAndFixFields acmeResult = Returns (acmeResult\<lparr>description := Some ''Compra en Acme''\<rparr>)
   \<and> validateAndFixFields (acmeResult\<lparr>description := Some ''Compra en Acme''\<rparr>)
       = Returns (acmeResult\<lparr>description := Some ''Compra en''\<rparr>)"
  by (simp add: acmeResult_def char_eval string_eval regex_eval validate_eval amount_eval
      date_eval provider_eval)

end
